theory Spec2Isabelle
  imports Complex_Main
begin

section \<open>The consistency checker of anthropometric records\<close>

text \<open>
  This theory embeds the class \<open>DetecteurIncoherenceTaille\<close> of \<open>script.py\<close>: its two
  reference tables, the entry point \<open>valider_donnees\<close> and the helpers
  \<open>_obtenir_plage_taille\<close> and \<open>_estimer_poids_enfant\<close> (written here without the
  leading underscore).

  Conventions of the embedding.
  \<^item> A Python number that holds a measurement is the rational it denotes. The embedding
    has two layers. The first computes every quotient, product and square exactly; it
    carries the claims whose content is the control flow, the lists and the score. The
    second (\<open>Floating-point arithmetic\<close> and the definitions ending in \<open>_f\<close>) repeats
    the lines that compute in floating point with the arithmetic as a parameter, and
    gives IEEE 754 binary64 as an instance; it carries the claims about the computed
    ratios, the BMI and the child-weight estimate. \<open>valider_donnees_f exacte\<close> is
    \<open>valider_donnees\<close> (lemma \<open>valider_donnees_f_exacte\<close>). The age is an integer, as
    the docstring of \<open>valider_donnees\<close> declares it.
  \<^item> The input dictionary is a record of optional fields. A field is \<open>None\<close> when the
    key is absent or holds Python's \<open>None\<close>: the source never distinguishes the two
    (line 74 tests \<open>champ not in donnees or donnees[champ] is None\<close>, lines 133, 143,
    159, 197 and 207 test \<open>'k' in donnees and donnees['k']\<close>). The keys
    \<open>taille_mere\<close> and \<open>taille_pere\<close> of the docstring are never read and are left out.
  \<^item> An error or warning message is a constructor carrying the values that the
    f-string of the source formats into the text.
  \<^item> A division is \<open>diviser\<close>, which raises \<open>ZeroDivisionError\<close> on a zero divisor as
    Python does; reading a key that the dictionary lacks raises \<open>KeyError\<close>.
\<close>

subsection \<open>Exceptions and results\<close>

datatype exception = KeyError string | ZeroDivisionError

definition puis :: "exception + 'a \<Rightarrow> ('a \<Rightarrow> exception + 'b) \<Rightarrow> exception + 'b" where
  "puis m f = (case m of Inl e \<Rightarrow> Inl e | Inr x \<Rightarrow> f x)"

definition diviser :: "rat \<Rightarrow> rat \<Rightarrow> exception + rat" where
  "diviser x y = (if y = 0 then Inl ZeroDivisionError else Inr (x / y))"

subsection \<open>Messages\<close>

datatype erreur =
    ChampManquant string
  | AgeInvalide int
  | SexeInvalide string
  | TailleInvalide rat
  | PoidsInvalide rat
  | TailleIncoherente string int rat rat rat
  | IMCExtreme rat rat rat
  | RatioTourTaille rat rat rat
  | RatioEnvergure rat rat rat
  | RatioJambe rat rat rat
  | PoidsTailleAge rat rat rat rat
  | TourTailleSupEnvergure rat rat
  | JambeSupEnvergure rat rat

datatype avertissement =
    IMCInhabituel rat
  | EnvergureAtypique rat rat
  | PoidsInhabituel rat rat

subsection \<open>Input and output\<close>

record donnees =
  age :: "int option"
  sexe :: "string option"
  taille :: "rat option"
  poids :: "rat option"
  tour_taille :: "rat option"
  envergure :: "rat option"
  longueur_jambe :: "rat option"

record ValidationResult =
  est_valide :: bool
  erreurs :: "erreur list"
  avertissements :: "avertissement list"
  score_coherence :: rat

text \<open>
  The three local variables \<open>erreurs\<close>, \<open>avertissements\<close> and \<open>score\<close> of
  \<open>valider_donnees\<close>, threaded through the checks.
\<close>

type_synonym etat = "erreur list \<times> avertissement list \<times> rat"

definition etat_initial :: etat where
  "etat_initial = ([], [], 100)"

text \<open>\<open>erreurs.append(e); score -= n\<close> and \<open>avertissements.append(w); score -= n\<close>.\<close>

fun signaler_erreur :: "erreur \<Rightarrow> rat \<Rightarrow> etat \<Rightarrow> etat" where
  "signaler_erreur e n (es, ws, sc) = (es @ [e], ws, sc - n)"

fun signaler_avertissement :: "avertissement \<Rightarrow> rat \<Rightarrow> etat \<Rightarrow> etat" where
  "signaler_avertissement w n (es, ws, sc) = (es, ws @ [w], sc - n)"

text \<open>
  The two early returns (lines 79 and 105) and the final return (lines 216 to 219).
\<close>

fun retour_anticipe :: "etat \<Rightarrow> ValidationResult" where
  "retour_anticipe (es, ws, sc) =
     \<lparr>est_valide = False, erreurs = es, avertissements = ws, score_coherence = max 0 sc\<rparr>"

fun retour_final :: "etat \<Rightarrow> ValidationResult" where
  "retour_final (es, ws, sc) =
     \<lparr>est_valide = (length es = 0), erreurs = es, avertissements = ws,
      score_coherence = max 0 (min 100 sc)\<rparr>"

subsection \<open>Reference tables\<close>

text \<open>
  \<open>self.taille_normale\<close>: a dictionary of dictionaries, kept as association lists in
  the insertion order that the loop of \<open>_obtenir_plage_taille\<close> follows.
\<close>

definition taille_normale :: "(string \<times> ((int \<times> int) \<times> (rat \<times> rat)) list) list" where
  "taille_normale =
     [(''homme'',
        [((0, 2), (50, 90)),
         ((2, 5), (85, 115)),
         ((5, 10), (105, 145)),
         ((10, 15), (130, 180)),
         ((15, 20), (155, 200)),
         ((20, 150), (150, 210))]),
      (''femme'',
        [((0, 2), (48, 88)),
         ((2, 5), (83, 112)),
         ((5, 10), (103, 142)),
         ((10, 15), (130, 175)),
         ((15, 20), (150, 185)),
         ((20, 150), (145, 195))])]"

definition ratios_normaux :: "(string \<times> (rat \<times> rat)) list" where
  "ratios_normaux =
     [(''tour_taille_taille'', (35 / 100, 55 / 100)),
      (''envergure_taille'', (98 / 100, 106 / 100)),
      (''longueur_jambe_taille'', (45 / 100, 53 / 100))]"

text \<open>\<open>self.ratios_normaux[k]\<close>.\<close>

definition lire_ratio :: "string \<Rightarrow> exception + (rat \<times> rat)" where
  "lire_ratio k = (case map_of ratios_normaux k of None \<Rightarrow> Inl (KeyError k) | Some r \<Rightarrow> Inr r)"

subsection \<open>Helpers\<close>

text \<open>The loop of \<open>_obtenir_plage_taille\<close>: the first interval with \<open>age_min <= age < age_max\<close>.\<close>

fun contient :: "int \<times> int \<Rightarrow> int \<Rightarrow> bool" where
  "contient (age_min, age_max) a = (age_min \<le> a \<and> a < age_max)"

fun chercher_plage :: "((int \<times> int) \<times> (rat \<times> rat)) list \<Rightarrow> int \<Rightarrow> (rat \<times> rat) option" where
  "chercher_plage [] a = None"
| "chercher_plage ((intervalle, (taille_min, taille_max)) # reste) a =
     (if contient intervalle a then Some (taille_min, taille_max)
      else chercher_plage reste a)"

definition obtenir_plage_taille :: "int \<Rightarrow> string \<Rightarrow> (rat \<times> rat) option" where
  "obtenir_plage_taille a s =
     (case map_of taille_normale s of
        None \<Rightarrow> None
      | Some plages \<Rightarrow> chercher_plage plages a)"

definition estimer_poids_enfant :: "int \<Rightarrow> rat \<Rightarrow> string \<Rightarrow> rat" where
  "estimer_poids_enfant a t s =
     (if a < 2 then of_int (a * 3 + 7)
      else if a < 12 then of_int (a * 2 + 8)
      else 19 * ((t / 100) ^ 2))"

text \<open>
  \<open>str.lower\<close> on byte strings: the letters \<open>A\<close> to \<open>Z\<close> move to \<open>a\<close> to \<open>z\<close>
  and every other character stays. The only use of the result is the comparison with
  \<open>'homme'\<close> and \<open>'femme'\<close> and the text of the sex error.
\<close>

definition lower_char :: "char \<Rightarrow> char" where
  "lower_char c =
     (let n = (of_char c :: nat) in if 65 \<le> n \<and> n \<le> 90 then char_of (n + 32) else c)"

definition lower :: "string \<Rightarrow> string" where
  "lower s = map lower_char s"

subsection \<open>Step 0: required fields (lines 71 to 79)\<close>

definition champs_requis :: "string list" where
  "champs_requis = [''age'', ''sexe'', ''taille'', ''poids'']"

text \<open>\<open>champ not in donnees or donnees[champ] is None\<close>.\<close>

definition manquant :: "donnees \<Rightarrow> string \<Rightarrow> bool" where
  "manquant d champ =
     (if champ = ''age'' then age d = None
      else if champ = ''sexe'' then sexe d = None
      else if champ = ''taille'' then taille d = None
      else if champ = ''poids'' then poids d = None
      else if champ = ''tour_taille'' then tour_taille d = None
      else if champ = ''envergure'' then envergure d = None
      else if champ = ''longueur_jambe'' then longueur_jambe d = None
      else True)"

definition verifier_champs :: "donnees \<Rightarrow> etat \<Rightarrow> etat" where
  "verifier_champs d st =
     foldl (\<lambda>st champ. if manquant d champ then signaler_erreur (ChampManquant champ) 25 st else st)
       st champs_requis"

subsection \<open>Step 1: base values (lines 87 to 102)\<close>

definition valeurs_de_base :: "int \<Rightarrow> string \<Rightarrow> rat \<Rightarrow> rat \<Rightarrow> etat \<Rightarrow> etat" where
  "valeurs_de_base a s t p st =
     (let st = (if a < 0 \<or> a > 120 then signaler_erreur (AgeInvalide a) 20 st else st);
          st = (if s \<notin> set [''homme'', ''femme''] then signaler_erreur (SexeInvalide s) 20 st else st);
          st = (if t \<le> 0 \<or> t > 300 then signaler_erreur (TailleInvalide t) 20 st else st);
          st = (if p \<le> 0 \<or> p > 500 then signaler_erreur (PoidsInvalide p) 20 st else st)
      in st)"

subsection \<open>Step 2: height against age and sex (lines 107 to 116)\<close>

definition coherence_taille :: "int \<Rightarrow> string \<Rightarrow> rat \<Rightarrow> etat \<Rightarrow> etat" where
  "coherence_taille a s t st =
     (case obtenir_plage_taille a s of
        None \<Rightarrow> st
      | Some (min_taille, max_taille) \<Rightarrow>
          if t < min_taille \<or> t > max_taille
          then signaler_erreur (TailleIncoherente s a t min_taille max_taille) 15 st
          else st)"

subsection \<open>Step 3: body-mass index (lines 118 to 130)\<close>

definition juger_imc :: "rat \<Rightarrow> rat \<Rightarrow> rat \<Rightarrow> etat \<Rightarrow> etat" where
  "juger_imc imc p t st =
     (if imc < 10 \<or> imc > 50 then signaler_erreur (IMCExtreme imc p t) 15 st
      else if imc < 13 \<or> imc > 40 then signaler_avertissement (IMCInhabituel imc) 5 st
      else st)"

definition validation_imc :: "rat \<Rightarrow> rat \<Rightarrow> etat \<Rightarrow> exception + etat" where
  "validation_imc t p st =
     puis (diviser p ((t / 100) ^ 2)) (\<lambda>imc. Inr (juger_imc imc p t st))"

subsection \<open>Step 4: body ratios (lines 132 to 167)\<close>

text \<open>\<open>'k' in donnees and donnees['k']\<close>: the key is present and its value is truthy.\<close>

definition renseigne :: "rat option \<Rightarrow> bool" where
  "renseigne v = (case v of None \<Rightarrow> False | Some x \<Rightarrow> x \<noteq> 0)"

definition juger_tour_taille :: "rat \<Rightarrow> rat \<times> rat \<Rightarrow> etat \<Rightarrow> etat" where
  "juger_tour_taille ratio_tt plage st =
     (case plage of (min_r, max_r) \<Rightarrow>
        if ratio_tt < min_r \<or> ratio_tt > max_r
        then signaler_erreur (RatioTourTaille ratio_tt min_r max_r) 10 st
        else st)"

definition ratio_tour_taille :: "donnees \<Rightarrow> rat \<Rightarrow> etat \<Rightarrow> exception + etat" where
  "ratio_tour_taille d t st =
     (case tour_taille d of
        None \<Rightarrow> Inr st
      | Some tt \<Rightarrow>
          if tt = 0 then Inr st
          else puis (diviser tt t) (\<lambda>ratio_tt.
               puis (lire_ratio ''tour_taille_taille'') (\<lambda>plage.
               Inr (juger_tour_taille ratio_tt plage st))))"

definition juger_envergure :: "rat \<Rightarrow> rat \<times> rat \<Rightarrow> rat \<Rightarrow> rat \<Rightarrow> etat \<Rightarrow> etat" where
  "juger_envergure ratio_env plage e t st =
     (case plage of (min_r, max_r) \<Rightarrow>
        if ratio_env < min_r - 1 / 10 \<or> ratio_env > max_r + 1 / 10
        then signaler_erreur (RatioEnvergure ratio_env min_r max_r) 10 st
        else if ratio_env < min_r \<or> ratio_env > max_r
        then signaler_avertissement (EnvergureAtypique e t) 3 st
        else st)"

definition ratio_envergure :: "donnees \<Rightarrow> rat \<Rightarrow> etat \<Rightarrow> exception + etat" where
  "ratio_envergure d t st =
     (case envergure d of
        None \<Rightarrow> Inr st
      | Some e \<Rightarrow>
          if e = 0 then Inr st
          else puis (diviser e t) (\<lambda>ratio_env.
               puis (lire_ratio ''envergure_taille'') (\<lambda>plage.
               Inr (juger_envergure ratio_env plage e t st))))"

definition juger_jambe :: "rat \<Rightarrow> rat \<times> rat \<Rightarrow> etat \<Rightarrow> etat" where
  "juger_jambe ratio_jambe plage st =
     (case plage of (min_r, max_r) \<Rightarrow>
        if ratio_jambe < min_r \<or> ratio_jambe > max_r
        then signaler_erreur (RatioJambe ratio_jambe min_r max_r) 10 st
        else st)"

definition ratio_jambe :: "donnees \<Rightarrow> rat \<Rightarrow> etat \<Rightarrow> exception + etat" where
  "ratio_jambe d t st =
     (case longueur_jambe d of
        None \<Rightarrow> Inr st
      | Some l \<Rightarrow>
          if l = 0 then Inr st
          else puis (diviser l t) (\<lambda>ratio_j.
               puis (lire_ratio ''longueur_jambe_taille'') (\<lambda>plage.
               Inr (juger_jambe ratio_j plage st))))"

subsection \<open>Step 5: adult weight for height (lines 169 to 182)\<close>

definition poids_adulte :: "int \<Rightarrow> rat \<Rightarrow> rat \<Rightarrow> etat \<Rightarrow> etat" where
  "poids_adulte a t p st =
     (if a \<ge> 18 then
        (let imc_min_sain = 16; imc_max_sain = 35;
             poids_min = imc_min_sain * ((t / 100) ^ 2);
             poids_max = imc_max_sain * ((t / 100) ^ 2)
         in if p < poids_min * (8 / 10) \<or> p > poids_max * (12 / 10)
            then signaler_erreur (PoidsTailleAge t p poids_min poids_max) 10 st
            else st)
      else st)"

subsection \<open>Step 6: child weight for age and height (lines 184 to 194)\<close>

definition juger_poids_enfant :: "rat \<Rightarrow> rat \<Rightarrow> rat \<Rightarrow> etat \<Rightarrow> etat" where
  "juger_poids_enfant diff_poids p poids_attendu st =
     (if diff_poids > 1 / 2 then signaler_avertissement (PoidsInhabituel p poids_attendu) 5 st
      else st)"

definition poids_enfant :: "int \<Rightarrow> string \<Rightarrow> rat \<Rightarrow> rat \<Rightarrow> etat \<Rightarrow> exception + etat" where
  "poids_enfant a s t p st =
     (if a < 18 then
        (let poids_attendu = estimer_poids_enfant a t s
         in if poids_attendu \<noteq> 0
            then puis (diviser \<bar>p - poids_attendu\<bar> poids_attendu) (\<lambda>diff_poids.
                 Inr (juger_poids_enfant diff_poids p poids_attendu st))
            else Inr st)
      else Inr st)"

subsection \<open>Steps 7 and 8: cross-measurement checks (lines 196 to 214)\<close>

definition tour_taille_envergure :: "donnees \<Rightarrow> etat \<Rightarrow> etat" where
  "tour_taille_envergure d st =
     (if renseigne (tour_taille d) \<and> renseigne (envergure d) then
        (case (tour_taille d, envergure d) of
           (Some tt, Some e) \<Rightarrow>
             if tt > e then signaler_erreur (TourTailleSupEnvergure tt e) 10 st else st
         | _ \<Rightarrow> st)
      else st)"

definition jambe_envergure :: "donnees \<Rightarrow> etat \<Rightarrow> etat" where
  "jambe_envergure d st =
     (if renseigne (longueur_jambe d) \<and> renseigne (envergure d) then
        (case (longueur_jambe d, envergure d) of
           (Some l, Some e) \<Rightarrow>
             if l > e then signaler_erreur (JambeSupEnvergure l e) 10 st else st
         | _ \<Rightarrow> st)
      else st)"

subsection \<open>The entry point\<close>

text \<open>Steps 2 to 8 in the order of the source, stopping at the first exception.\<close>

definition controles :: "donnees \<Rightarrow> int \<Rightarrow> string \<Rightarrow> rat \<Rightarrow> rat \<Rightarrow> etat \<Rightarrow> exception + etat" where
  "controles d a s t p st =
     puis (validation_imc t p (coherence_taille a s t st)) (\<lambda>st.
     puis (ratio_tour_taille d t st) (\<lambda>st.
     puis (ratio_envergure d t st) (\<lambda>st.
     puis (ratio_jambe d t st) (\<lambda>st.
     puis (poids_enfant a s t p (poids_adulte a t p st)) (\<lambda>st.
     Inr (jambe_envergure d (tour_taille_envergure d st)))))))"

definition valider_donnees :: "donnees \<Rightarrow> exception + ValidationResult" where
  "valider_donnees d =
     (let st = verifier_champs d etat_initial in
      if fst st \<noteq> [] then Inr (retour_anticipe st)
      else
        (case age d of None \<Rightarrow> Inl (KeyError ''age'') | Some a \<Rightarrow>
        (case sexe d of None \<Rightarrow> Inl (KeyError ''sexe'') | Some s0 \<Rightarrow>
        (case taille d of None \<Rightarrow> Inl (KeyError ''taille'') | Some t \<Rightarrow>
        (case poids d of None \<Rightarrow> Inl (KeyError ''poids'') | Some p \<Rightarrow>
          (let s = lower s0;
               st = valeurs_de_base a s t p st
           in if fst st \<noteq> [] then Inr (retour_anticipe st)
              else puis (controles d a s t p st) (\<lambda>st. Inr (retour_final st))))))))"

subsection \<open>Floating-point arithmetic\<close>

text \<open>
  The definitions above compute with exact rationals. Python computes the quotients,
  products, squares, sums and differences of lines 119 to 194 in binary floating point,
  and reads each decimal literal (\<open>0.98\<close>, \<open>0.1\<close>, ...) as the nearest float. The
  definitions of this part repeat those lines with the arithmetic as a parameter: an
  \<open>arithmetique\<close> gives the value of a decimal literal and the result of each
  operation. Comparisons are exact (Python compares floats, and a float with an integer,
  by value), and so is the score, which only takes integer deductions from 100.

  A float is the rational it denotes; \<open>inf\<close> and \<open>nan\<close> are not values of the model.
\<close>

record arithmetique =
  fl_lit :: "rat \<Rightarrow> rat"
  fl_add :: "rat \<Rightarrow> rat \<Rightarrow> rat"
  fl_sub :: "rat \<Rightarrow> rat \<Rightarrow> rat"
  fl_mul :: "rat \<Rightarrow> rat \<Rightarrow> rat"
  fl_div :: "rat \<Rightarrow> rat \<Rightarrow> rat"
  fl_carre :: "rat \<Rightarrow> rat"

text \<open>Arithmetic without rounding: the one of the definitions above.\<close>

definition exacte :: arithmetique where
  "exacte =
     \<lparr>fl_lit = (\<lambda>x. x), fl_add = (\<lambda>x y. x + y), fl_sub = (\<lambda>x y. x - y),
      fl_mul = (\<lambda>x y. x * y), fl_div = (\<lambda>x y. x / y), fl_carre = (\<lambda>x. x ^ 2)\<rparr>"

text \<open>
  IEEE 754 binary64, the \<open>float\<close> of Python: 53 significant bits, exponents from
  \<open>-1022\<close>, subnormal numbers below \<open>2 ^ -1022\<close>, rounding to the nearest float and
  to the even one on a tie. A value below half of the smallest subnormal \<open>2 ^ -1074\<close>
  rounds to zero (underflow). A result beyond the largest float, which Python turns into
  \<open>inf\<close>, is left unbounded here.
\<close>

text \<open>The number of binary digits of \<open>n\<close>.\<close>

fun nb_bits :: "nat \<Rightarrow> nat" where
  "nb_bits n = (if n = 0 then 0 else Suc (nb_bits (n div 2)))"

declare nb_bits.simps [simp del]

definition deux_puissance :: "int \<Rightarrow> rat" where
  "deux_puissance k = (if 0 \<le> k then 2 ^ nat k else 1 / 2 ^ nat (- k))"

text \<open>For \<open>x > 0\<close>, the exponent \<open>e\<close> with \<open>2 ^ e \<le> x < 2 ^ (e + 1)\<close>.\<close>

definition exposant :: "rat \<Rightarrow> int" where
  "exposant x =
     (if 1 \<le> x then int (nb_bits (nat \<lfloor>x\<rfloor>)) - 1
      else let b = int (nb_bits (nat \<lfloor>1 / x\<rfloor>))
           in if deux_puissance (1 - b) \<le> x then 1 - b else - b)"

text \<open>The nearest integer, the even one on a tie.\<close>

definition entier_pair_proche :: "rat \<Rightarrow> int" where
  "entier_pair_proche m =
     (let f = \<lfloor>m\<rfloor>; r = m - of_int f
      in if r < 1 / 2 then f else if r > 1 / 2 then f + 1 else if even f then f else f + 1)"

definition arrondi :: "rat \<Rightarrow> rat" where
  "arrondi x =
     (if x = 0 then 0
      else let a = \<bar>x\<bar>;
               e = (if a < deux_puissance (- 1022) then - 1022 else exposant a);
               u = deux_puissance (e - 52)
           in sgn x * of_int (entier_pair_proche (a / u)) * u)"

text \<open>
  Python's \<open>+\<close>, \<open>-\<close>, \<open>*\<close> and \<open>/\<close> on floats round the exact result; \<open>x ** 2\<close> is
  the C library's \<open>pow\<close>, taken here as the rounded exact square.
\<close>

definition binary64 :: arithmetique where
  "binary64 =
     \<lparr>fl_lit = arrondi,
      fl_add = (\<lambda>x y. arrondi (x + y)), fl_sub = (\<lambda>x y. arrondi (x - y)),
      fl_mul = (\<lambda>x y. arrondi (x * y)), fl_div = (\<lambda>x y. arrondi (x / y)),
      fl_carre = (\<lambda>x. arrondi (x * x))\<rparr>"

subsection \<open>Steps 3 to 6 and the entry point, in floating point\<close>

definition diviser_f :: "arithmetique \<Rightarrow> rat \<Rightarrow> rat \<Rightarrow> exception + rat" where
  "diviser_f ar x y = (if y = 0 then Inl ZeroDivisionError else Inr (fl_div ar x y))"

definition ratios_normaux_f :: "arithmetique \<Rightarrow> (string \<times> (rat \<times> rat)) list" where
  "ratios_normaux_f ar =
     [(''tour_taille_taille'', (fl_lit ar (35 / 100), fl_lit ar (55 / 100))),
      (''envergure_taille'', (fl_lit ar (98 / 100), fl_lit ar (106 / 100))),
      (''longueur_jambe_taille'', (fl_lit ar (45 / 100), fl_lit ar (53 / 100)))]"

definition lire_ratio_f :: "arithmetique \<Rightarrow> string \<Rightarrow> exception + (rat \<times> rat)" where
  "lire_ratio_f ar k =
     (case map_of (ratios_normaux_f ar) k of None \<Rightarrow> Inl (KeyError k) | Some r \<Rightarrow> Inr r)"

text \<open>Line 119: \<open>imc = poids / ((taille / 100) ** 2)\<close>, then lines 120 to 130.\<close>

definition validation_imc_f :: "arithmetique \<Rightarrow> rat \<Rightarrow> rat \<Rightarrow> etat \<Rightarrow> exception + etat" where
  "validation_imc_f ar t p st =
     puis (diviser_f ar p (fl_carre ar (fl_div ar t 100))) (\<lambda>imc. Inr (juger_imc imc p t st))"

definition ratio_tour_taille_f :: "arithmetique \<Rightarrow> donnees \<Rightarrow> rat \<Rightarrow> etat \<Rightarrow> exception + etat" where
  "ratio_tour_taille_f ar d t st =
     (case tour_taille d of
        None \<Rightarrow> Inr st
      | Some tt \<Rightarrow>
          if tt = 0 then Inr st
          else puis (diviser_f ar tt t) (\<lambda>ratio_tt.
               puis (lire_ratio_f ar ''tour_taille_taille'') (\<lambda>plage.
               Inr (juger_tour_taille ratio_tt plage st))))"

text \<open>Lines 146 to 157, with \<open>min_r - 0.1\<close> and \<open>max_r + 0.1\<close> computed in floating point.\<close>

definition juger_envergure_f ::
  "arithmetique \<Rightarrow> rat \<Rightarrow> rat \<times> rat \<Rightarrow> rat \<Rightarrow> rat \<Rightarrow> etat \<Rightarrow> etat" where
  "juger_envergure_f ar ratio_env plage e t st =
     (case plage of (min_r, max_r) \<Rightarrow>
        if ratio_env < fl_sub ar min_r (fl_lit ar (1 / 10)) \<or>
           ratio_env > fl_add ar max_r (fl_lit ar (1 / 10))
        then signaler_erreur (RatioEnvergure ratio_env min_r max_r) 10 st
        else if ratio_env < min_r \<or> ratio_env > max_r
        then signaler_avertissement (EnvergureAtypique e t) 3 st
        else st)"

definition ratio_envergure_f :: "arithmetique \<Rightarrow> donnees \<Rightarrow> rat \<Rightarrow> etat \<Rightarrow> exception + etat" where
  "ratio_envergure_f ar d t st =
     (case envergure d of
        None \<Rightarrow> Inr st
      | Some e \<Rightarrow>
          if e = 0 then Inr st
          else puis (diviser_f ar e t) (\<lambda>ratio_env.
               puis (lire_ratio_f ar ''envergure_taille'') (\<lambda>plage.
               Inr (juger_envergure_f ar ratio_env plage e t st))))"

definition ratio_jambe_f :: "arithmetique \<Rightarrow> donnees \<Rightarrow> rat \<Rightarrow> etat \<Rightarrow> exception + etat" where
  "ratio_jambe_f ar d t st =
     (case longueur_jambe d of
        None \<Rightarrow> Inr st
      | Some l \<Rightarrow>
          if l = 0 then Inr st
          else puis (diviser_f ar l t) (\<lambda>ratio_j.
               puis (lire_ratio_f ar ''longueur_jambe_taille'') (\<lambda>plage.
               Inr (juger_jambe ratio_j plage st))))"

definition poids_adulte_f :: "arithmetique \<Rightarrow> int \<Rightarrow> rat \<Rightarrow> rat \<Rightarrow> etat \<Rightarrow> etat" where
  "poids_adulte_f ar a t p st =
     (if a \<ge> 18 then
        (let imc_min_sain = 16; imc_max_sain = 35;
             poids_min = fl_mul ar imc_min_sain (fl_carre ar (fl_div ar t 100));
             poids_max = fl_mul ar imc_max_sain (fl_carre ar (fl_div ar t 100))
         in if p < fl_mul ar poids_min (fl_lit ar (8 / 10)) \<or>
               p > fl_mul ar poids_max (fl_lit ar (12 / 10))
            then signaler_erreur (PoidsTailleAge t p poids_min poids_max) 10 st
            else st)
      else st)"

definition estimer_poids_enfant_f :: "arithmetique \<Rightarrow> int \<Rightarrow> rat \<Rightarrow> string \<Rightarrow> rat" where
  "estimer_poids_enfant_f ar a t s =
     (if a < 2 then of_int (a * 3 + 7)
      else if a < 12 then of_int (a * 2 + 8)
      else fl_mul ar 19 (fl_carre ar (fl_div ar t 100)))"

definition poids_enfant_f ::
  "arithmetique \<Rightarrow> int \<Rightarrow> string \<Rightarrow> rat \<Rightarrow> rat \<Rightarrow> etat \<Rightarrow> exception + etat" where
  "poids_enfant_f ar a s t p st =
     (if a < 18 then
        (let poids_attendu = estimer_poids_enfant_f ar a t s
         in if poids_attendu \<noteq> 0
            then puis (diviser_f ar \<bar>fl_sub ar p poids_attendu\<bar> poids_attendu) (\<lambda>diff_poids.
                 Inr (juger_poids_enfant diff_poids p poids_attendu st))
            else Inr st)
      else Inr st)"

definition controles_f ::
  "arithmetique \<Rightarrow> donnees \<Rightarrow> int \<Rightarrow> string \<Rightarrow> rat \<Rightarrow> rat \<Rightarrow> etat \<Rightarrow> exception + etat" where
  "controles_f ar d a s t p st =
     puis (validation_imc_f ar t p (coherence_taille a s t st)) (\<lambda>st.
     puis (ratio_tour_taille_f ar d t st) (\<lambda>st.
     puis (ratio_envergure_f ar d t st) (\<lambda>st.
     puis (ratio_jambe_f ar d t st) (\<lambda>st.
     puis (poids_enfant_f ar a s t p (poids_adulte_f ar a t p st)) (\<lambda>st.
     Inr (jambe_envergure d (tour_taille_envergure d st)))))))"

definition valider_donnees_f :: "arithmetique \<Rightarrow> donnees \<Rightarrow> exception + ValidationResult" where
  "valider_donnees_f ar d =
     (let st = verifier_champs d etat_initial in
      if fst st \<noteq> [] then Inr (retour_anticipe st)
      else
        (case age d of None \<Rightarrow> Inl (KeyError ''age'') | Some a \<Rightarrow>
        (case sexe d of None \<Rightarrow> Inl (KeyError ''sexe'') | Some s0 \<Rightarrow>
        (case taille d of None \<Rightarrow> Inl (KeyError ''taille'') | Some t \<Rightarrow>
        (case poids d of None \<Rightarrow> Inl (KeyError ''poids'') | Some p \<Rightarrow>
          (let s = lower s0;
               st = valeurs_de_base a s t p st
           in if fst st \<noteq> [] then Inr (retour_anticipe st)
              else puis (controles_f ar d a s t p st) (\<lambda>st. Inr (retour_final st))))))))"

subsection \<open>Records that reach Step 2\<close>

text \<open>
  The record \<open>d\<close> gets past both early returns: its four required fields are
  present, with age \<open>a\<close>, lower-cased sex \<open>s\<close>, height \<open>t\<close> and weight \<open>p\<close>
  (lines 82 to 85), and Step 1 reports no error on them (line 104).
\<close>

definition atteint_etape2 :: "donnees \<Rightarrow> int \<Rightarrow> string \<Rightarrow> rat \<Rightarrow> rat \<Rightarrow> bool" where
  "atteint_etape2 d a s t p =
     (age d = Some a \<and> map_option lower (sexe d) = Some s \<and> taille d = Some t \<and>
      poids d = Some p \<and> fst (valeurs_de_base a s t p etat_initial) = [])"

section \<open>Properties\<close>

subsection \<open>Exceptions, tables, steps 0 and 1\<close>

lemma puis_Inr: "puis (Inr x) f = f x"
  by (simp add: puis_def)

lemma diviser_Inr: "y \<noteq> 0 \<Longrightarrow> diviser x y = Inr (x / y)"
  by (simp add: diviser_def)

lemma lire_ratio_tour_taille: "lire_ratio ''tour_taille_taille'' = Inr (35 / 100, 55 / 100)"
  by (simp add: lire_ratio_def ratios_normaux_def)

lemma lire_ratio_envergure: "lire_ratio ''envergure_taille'' = Inr (98 / 100, 106 / 100)"
  by (simp add: lire_ratio_def ratios_normaux_def)

lemma lire_ratio_jambe: "lire_ratio ''longueur_jambe_taille'' = Inr (45 / 100, 53 / 100)"
  by (simp add: lire_ratio_def ratios_normaux_def)

lemma boucle_champs:
  "foldl (\<lambda>st champ. if manquant d champ then signaler_erreur (ChampManquant champ) 25 st else st)
     (es, ws, sc) cs =
   (es @ map ChampManquant (filter (manquant d) cs), ws,
    sc - 25 * of_nat (length (filter (manquant d) cs)))"
  by (induction cs arbitrary: es sc) (simp_all add: algebra_simps)

lemma verifier_champs_initial:
  "verifier_champs d etat_initial =
     (map ChampManquant (filter (manquant d) champs_requis), [],
      100 - 25 * of_nat (length (filter (manquant d) champs_requis)))"
  by (simp add: verifier_champs_def etat_initial_def boucle_champs)

lemma aucun_manquant:
  "filter (manquant d) champs_requis = [] \<longleftrightarrow>
     age d \<noteq> None \<and> sexe d \<noteq> None \<and> taille d \<noteq> None \<and> poids d \<noteq> None"
  by (simp add: champs_requis_def manquant_def)

lemma valeurs_de_base_sans_erreur:
  "fst (valeurs_de_base a s t p ([], ws, sc)) = [] \<longleftrightarrow>
     0 \<le> a \<and> a \<le> 120 \<and> (s = ''homme'' \<or> s = ''femme'') \<and> 0 < t \<and> t \<le> 300 \<and> 0 < p \<and> p \<le> 500"
  by (auto simp: valeurs_de_base_def Let_def)

lemma valeurs_de_base_score:
  "snd (snd (valeurs_de_base a s t p (es, ws, sc))) \<le> sc"
  by (simp add: valeurs_de_base_def Let_def)

lemma valeurs_de_base_avertissements:
  "fst (snd (valeurs_de_base a s t p (es, ws, sc))) = ws"
  by (simp add: valeurs_de_base_def Let_def)


subsection \<open>Steps 2 to 8, one at a time\<close>

text \<open>With a non-zero height no division raises, and each step is its branching part.\<close>

lemma validation_imc_Inr:
  "t \<noteq> 0 \<Longrightarrow> validation_imc t p st = Inr (juger_imc (p / (t / 100) ^ 2) p t st)"
  by (simp add: validation_imc_def diviser_Inr puis_Inr)

lemma ratio_tour_taille_Inr:
  "t \<noteq> 0 \<Longrightarrow> ratio_tour_taille d t st =
     Inr (case tour_taille d of
            None \<Rightarrow> st
          | Some tt \<Rightarrow> if tt = 0 then st else juger_tour_taille (tt / t) (35 / 100, 55 / 100) st)"
  by (simp add: ratio_tour_taille_def diviser_Inr puis_Inr lire_ratio_tour_taille split: option.splits)

lemma ratio_envergure_Inr:
  "t \<noteq> 0 \<Longrightarrow> ratio_envergure d t st =
     Inr (case envergure d of
            None \<Rightarrow> st
          | Some e \<Rightarrow> if e = 0 then st else juger_envergure (e / t) (98 / 100, 106 / 100) e t st)"
  by (simp add: ratio_envergure_def diviser_Inr puis_Inr lire_ratio_envergure split: option.splits)

lemma ratio_jambe_Inr:
  "t \<noteq> 0 \<Longrightarrow> ratio_jambe d t st =
     Inr (case longueur_jambe d of
            None \<Rightarrow> st
          | Some l \<Rightarrow> if l = 0 then st else juger_jambe (l / t) (45 / 100, 53 / 100) st)"
  by (simp add: ratio_jambe_def diviser_Inr puis_Inr lire_ratio_jambe split: option.splits)

lemma poids_enfant_Inr:
  "poids_enfant a s t p st =
     Inr (if a < 18 \<and> estimer_poids_enfant a t s \<noteq> 0
          then juger_poids_enfant (\<bar>p - estimer_poids_enfant a t s\<bar> / estimer_poids_enfant a t s) p
                 (estimer_poids_enfant a t s) st
          else st)"
  by (simp add: poids_enfant_def Let_def diviser_Inr puis_Inr)

text \<open>
  The errors after a step are the errors before it and, when its condition holds, the one
  error that the step appends.
\<close>

lemma err_coherence_taille:
  "x \<in> set (fst (coherence_taille a s t st)) \<longleftrightarrow>
     x \<in> set (fst st) \<or>
     (\<exists>lo hi. obtenir_plage_taille a s = Some (lo, hi) \<and> (t < lo \<or> t > hi) \<and>
        x = TailleIncoherente s a t lo hi)"
  by (cases st) (auto simp: coherence_taille_def split: option.splits)

lemma err_juger_imc:
  "x \<in> set (fst (juger_imc imc p t st)) \<longleftrightarrow>
     x \<in> set (fst st) \<or> ((imc < 10 \<or> imc > 50) \<and> x = IMCExtreme imc p t)"
  by (cases st) (auto simp: juger_imc_def)

lemma err_juger_tour_taille:
  "x \<in> set (fst (juger_tour_taille r (lo, hi) st)) \<longleftrightarrow>
     x \<in> set (fst st) \<or> ((r < lo \<or> r > hi) \<and> x = RatioTourTaille r lo hi)"
  by (cases st) (auto simp: juger_tour_taille_def)

lemma err_juger_envergure:
  "x \<in> set (fst (juger_envergure r (lo, hi) e t st)) \<longleftrightarrow>
     x \<in> set (fst st) \<or> ((r < lo - 1 / 10 \<or> r > hi + 1 / 10) \<and> x = RatioEnvergure r lo hi)"
  by (cases st) (auto simp: juger_envergure_def)

lemma err_juger_jambe:
  "x \<in> set (fst (juger_jambe r (lo, hi) st)) \<longleftrightarrow>
     x \<in> set (fst st) \<or> ((r < lo \<or> r > hi) \<and> x = RatioJambe r lo hi)"
  by (cases st) (auto simp: juger_jambe_def)

lemma err_poids_adulte:
  "x \<in> set (fst (poids_adulte a t p st)) \<longleftrightarrow>
     x \<in> set (fst st) \<or>
     (a \<ge> 18 \<and> (p < 16 * (t / 100) ^ 2 * (8 / 10) \<or> p > 35 * (t / 100) ^ 2 * (12 / 10)) \<and>
      x = PoidsTailleAge t p (16 * (t / 100) ^ 2) (35 * (t / 100) ^ 2))"
  by (cases st) (auto simp: poids_adulte_def Let_def)

lemma err_juger_poids_enfant:
  "fst (juger_poids_enfant diff p pa st) = fst st"
  by (cases st) (simp add: juger_poids_enfant_def)

lemma err_tour_taille_envergure:
  "x \<in> set (fst (tour_taille_envergure d st)) \<longleftrightarrow>
     x \<in> set (fst st) \<or>
     (\<exists>tt e. tour_taille d = Some tt \<and> envergure d = Some e \<and> tt \<noteq> 0 \<and> e \<noteq> 0 \<and> tt > e \<and>
        x = TourTailleSupEnvergure tt e)"
  by (cases st) (auto simp: tour_taille_envergure_def renseigne_def split: option.splits)

lemma err_jambe_envergure:
  "x \<in> set (fst (jambe_envergure d st)) \<longleftrightarrow>
     x \<in> set (fst st) \<or>
     (\<exists>l e. longueur_jambe d = Some l \<and> envergure d = Some e \<and> l \<noteq> 0 \<and> e \<noteq> 0 \<and> l > e \<and>
        x = JambeSupEnvergure l e)"
  by (cases st) (auto simp: jambe_envergure_def renseigne_def split: option.splits)

text \<open>The same for the warnings: only steps 3, 4 (arm span) and 6 append any.\<close>

lemma av_coherence_taille: "fst (snd (coherence_taille a s t st)) = fst (snd st)"
  by (cases st) (simp add: coherence_taille_def split: option.splits)

lemma av_juger_imc:
  "w \<in> set (fst (snd (juger_imc imc p t st))) \<longleftrightarrow>
     w \<in> set (fst (snd st)) \<or>
     (10 \<le> imc \<and> imc \<le> 50 \<and> (imc < 13 \<or> imc > 40) \<and> w = IMCInhabituel imc)"
  by (cases st) (auto simp: juger_imc_def)

lemma av_juger_tour_taille: "fst (snd (juger_tour_taille r plage st)) = fst (snd st)"
  by (cases st) (simp add: juger_tour_taille_def split: prod.splits)

lemma av_juger_envergure:
  "w \<in> set (fst (snd (juger_envergure r (lo, hi) e t st))) \<longleftrightarrow>
     w \<in> set (fst (snd st)) \<or>
     (lo - 1 / 10 \<le> r \<and> r \<le> hi + 1 / 10 \<and> (r < lo \<or> r > hi) \<and> w = EnvergureAtypique e t)"
  by (cases st) (auto simp: juger_envergure_def)

lemma av_juger_jambe: "fst (snd (juger_jambe r plage st)) = fst (snd st)"
  by (cases st) (simp add: juger_jambe_def split: prod.splits)

lemma av_poids_adulte: "fst (snd (poids_adulte a t p st)) = fst (snd st)"
  by (cases st) (simp add: poids_adulte_def Let_def)

lemma av_juger_poids_enfant:
  "w \<in> set (fst (snd (juger_poids_enfant diff p pa st))) \<longleftrightarrow>
     w \<in> set (fst (snd st)) \<or> (diff > 1 / 2 \<and> w = PoidsInhabituel p pa)"
  by (cases st) (auto simp: juger_poids_enfant_def)

lemma av_tour_taille_envergure: "fst (snd (tour_taille_envergure d st)) = fst (snd st)"
  by (cases st) (simp add: tour_taille_envergure_def split: option.splits)

lemma av_jambe_envergure: "fst (snd (jambe_envergure d st)) = fst (snd st)"
  by (cases st) (simp add: jambe_envergure_def split: option.splits)


subsection \<open>Steps 2 to 8 together\<close>

lemma controles_Inr:
  assumes "t \<noteq> 0"
  shows "controles d a s t p st =
     Inr (let st = coherence_taille a s t st;
              st = juger_imc (p / (t / 100) ^ 2) p t st;
              st = (case tour_taille d of
                      None \<Rightarrow> st
                    | Some tt \<Rightarrow>
                        if tt = 0 then st
                        else juger_tour_taille (tt / t) (35 / 100, 55 / 100) st);
              st = (case envergure d of
                      None \<Rightarrow> st
                    | Some e \<Rightarrow>
                        if e = 0 then st
                        else juger_envergure (e / t) (98 / 100, 106 / 100) e t st);
              st = (case longueur_jambe d of
                      None \<Rightarrow> st
                    | Some l \<Rightarrow>
                        if l = 0 then st
                        else juger_jambe (l / t) (45 / 100, 53 / 100) st);
              st = poids_adulte a t p st;
              st = (if a < 18 \<and> estimer_poids_enfant a t s \<noteq> 0
                    then juger_poids_enfant
                           (\<bar>p - estimer_poids_enfant a t s\<bar> / estimer_poids_enfant a t s) p
                           (estimer_poids_enfant a t s) st
                    else st)
          in jambe_envergure d (tour_taille_envergure d st))"
  using assms
  by (simp add: controles_def puis_Inr validation_imc_Inr ratio_tour_taille_Inr
      ratio_envergure_Inr ratio_jambe_Inr poids_enfant_Inr Let_def)

lemma err_pas_tour_taille:
  "x \<in> set (fst (case tour_taille d of
                    None \<Rightarrow> st
                  | Some tt \<Rightarrow> if tt = 0 then st else juger_tour_taille (tt / t) (lo, hi) st)) \<longleftrightarrow>
     x \<in> set (fst st) \<or>
     (\<exists>tt. tour_taille d = Some tt \<and> tt \<noteq> 0 \<and> (tt / t < lo \<or> tt / t > hi) \<and>
        x = RatioTourTaille (tt / t) lo hi)"
  by (cases "tour_taille d") (auto simp: err_juger_tour_taille)

lemma err_pas_envergure:
  "x \<in> set (fst (case envergure d of
                    None \<Rightarrow> st
                  | Some e \<Rightarrow> if e = 0 then st else juger_envergure (e / t) (lo, hi) e t st)) \<longleftrightarrow>
     x \<in> set (fst st) \<or>
     (\<exists>e. envergure d = Some e \<and> e \<noteq> 0 \<and> (e / t < lo - 1 / 10 \<or> e / t > hi + 1 / 10) \<and>
        x = RatioEnvergure (e / t) lo hi)"
  by (cases "envergure d") (auto simp: err_juger_envergure)

lemma err_pas_jambe:
  "x \<in> set (fst (case longueur_jambe d of
                    None \<Rightarrow> st
                  | Some l \<Rightarrow> if l = 0 then st else juger_jambe (l / t) (lo, hi) st)) \<longleftrightarrow>
     x \<in> set (fst st) \<or>
     (\<exists>l. longueur_jambe d = Some l \<and> l \<noteq> 0 \<and> (l / t < lo \<or> l / t > hi) \<and>
        x = RatioJambe (l / t) lo hi)"
  by (cases "longueur_jambe d") (auto simp: err_juger_jambe)

lemma err_pas_poids_enfant:
  "fst (if c then juger_poids_enfant diff p pa st else st) = fst st"
  by (simp add: err_juger_poids_enfant)

lemma controles_erreurs:
  assumes "t \<noteq> 0" and "controles d a s t p st = Inr st'"
  shows "x \<in> set (fst st') \<longleftrightarrow>
     x \<in> set (fst st) \<or>
     (\<exists>lo hi. obtenir_plage_taille a s = Some (lo, hi) \<and> (t < lo \<or> t > hi) \<and>
        x = TailleIncoherente s a t lo hi) \<or>
     ((p / (t / 100) ^ 2 < 10 \<or> p / (t / 100) ^ 2 > 50) \<and> x = IMCExtreme (p / (t / 100) ^ 2) p t) \<or>
     (\<exists>tt. tour_taille d = Some tt \<and> tt \<noteq> 0 \<and> (tt / t < 35 / 100 \<or> tt / t > 55 / 100) \<and>
        x = RatioTourTaille (tt / t) (35 / 100) (55 / 100)) \<or>
     (\<exists>e. envergure d = Some e \<and> e \<noteq> 0 \<and>
        (e / t < 98 / 100 - 1 / 10 \<or> e / t > 106 / 100 + 1 / 10) \<and>
        x = RatioEnvergure (e / t) (98 / 100) (106 / 100)) \<or>
     (\<exists>l. longueur_jambe d = Some l \<and> l \<noteq> 0 \<and> (l / t < 45 / 100 \<or> l / t > 53 / 100) \<and>
        x = RatioJambe (l / t) (45 / 100) (53 / 100)) \<or>
     (a \<ge> 18 \<and> (p < 16 * (t / 100) ^ 2 * (8 / 10) \<or> p > 35 * (t / 100) ^ 2 * (12 / 10)) \<and>
        x = PoidsTailleAge t p (16 * (t / 100) ^ 2) (35 * (t / 100) ^ 2)) \<or>
     (\<exists>tt e. tour_taille d = Some tt \<and> envergure d = Some e \<and> tt \<noteq> 0 \<and> e \<noteq> 0 \<and> tt > e \<and>
        x = TourTailleSupEnvergure tt e) \<or>
     (\<exists>l e. longueur_jambe d = Some l \<and> envergure d = Some e \<and> l \<noteq> 0 \<and> e \<noteq> 0 \<and> l > e \<and>
        x = JambeSupEnvergure l e)"
proof -
  have "Inr st' = controles d a s t p st"
    using assms(2) by simp
  also note controles_Inr [OF assms(1)]
  finally show ?thesis
    unfolding Let_def sum.inject
    by (simp only: err_jambe_envergure err_tour_taille_envergure err_pas_poids_enfant
        err_poids_adulte err_pas_jambe err_pas_envergure err_pas_tour_taille
        err_juger_imc err_coherence_taille disj_assoc)
qed

lemma av_pas_tour_taille:
  "fst (snd (case tour_taille d of
               None \<Rightarrow> st
             | Some tt \<Rightarrow> if tt = 0 then st else juger_tour_taille (tt / t) plage st)) = fst (snd st)"
  by (simp add: av_juger_tour_taille split: option.splits)

lemma av_pas_envergure:
  "w \<in> set (fst (snd (case envergure d of
                         None \<Rightarrow> st
                       | Some e \<Rightarrow>
                           if e = 0 then st else juger_envergure (e / t) (lo, hi) e t st))) \<longleftrightarrow>
     w \<in> set (fst (snd st)) \<or>
     (\<exists>e. envergure d = Some e \<and> e \<noteq> 0 \<and> lo - 1 / 10 \<le> e / t \<and> e / t \<le> hi + 1 / 10 \<and>
        (e / t < lo \<or> e / t > hi) \<and> w = EnvergureAtypique e t)"
  by (cases "envergure d") (auto simp: av_juger_envergure)

lemma av_pas_jambe:
  "fst (snd (case longueur_jambe d of
               None \<Rightarrow> st
             | Some l \<Rightarrow> if l = 0 then st else juger_jambe (l / t) plage st)) = fst (snd st)"
  by (simp add: av_juger_jambe split: option.splits)

lemma av_pas_poids_enfant:
  "w \<in> set (fst (snd (if c then juger_poids_enfant diff p pa st else st))) \<longleftrightarrow>
     w \<in> set (fst (snd st)) \<or> (c \<and> diff > 1 / 2 \<and> w = PoidsInhabituel p pa)"
  by (simp add: av_juger_poids_enfant)

lemma controles_avertissements:
  assumes "t \<noteq> 0" and "controles d a s t p st = Inr st'"
  shows "w \<in> set (fst (snd st')) \<longleftrightarrow>
     w \<in> set (fst (snd st)) \<or>
     (10 \<le> p / (t / 100) ^ 2 \<and> p / (t / 100) ^ 2 \<le> 50 \<and>
        (p / (t / 100) ^ 2 < 13 \<or> p / (t / 100) ^ 2 > 40) \<and> w = IMCInhabituel (p / (t / 100) ^ 2)) \<or>
     (\<exists>e. envergure d = Some e \<and> e \<noteq> 0 \<and>
        98 / 100 - 1 / 10 \<le> e / t \<and> e / t \<le> 106 / 100 + 1 / 10 \<and>
        (e / t < 98 / 100 \<or> e / t > 106 / 100) \<and> w = EnvergureAtypique e t) \<or>
     ((a < 18 \<and> estimer_poids_enfant a t s \<noteq> 0) \<and>
        \<bar>p - estimer_poids_enfant a t s\<bar> / estimer_poids_enfant a t s > 1 / 2 \<and>
        w = PoidsInhabituel p (estimer_poids_enfant a t s))"
proof -
  have "Inr st' = controles d a s t p st"
    using assms(2) by simp
  also note controles_Inr [OF assms(1)]
  finally show ?thesis
    unfolding Let_def sum.inject
    by (simp only: av_jambe_envergure av_tour_taille_envergure av_pas_poids_enfant
        av_poids_adulte av_pas_jambe av_pas_envergure av_pas_tour_taille
        av_juger_imc av_coherence_taille disj_assoc)
qed

lemma controles_total: "t \<noteq> 0 \<Longrightarrow> \<exists>st'. controles d a s t p st = Inr st'"
  using controles_Inr [of t d a s p st] by blast

subsection \<open>The three return points\<close>

lemma atteint_etape2_iff:
  "atteint_etape2 d a s t p \<longleftrightarrow>
     age d = Some a \<and> (\<exists>s0. sexe d = Some s0 \<and> s = lower s0) \<and> taille d = Some t \<and>
     poids d = Some p \<and>
     0 \<le> a \<and> a \<le> 120 \<and> (s = ''homme'' \<or> s = ''femme'') \<and> 0 < t \<and> t \<le> 300 \<and> 0 < p \<and> p \<le> 500"
  by (auto simp: atteint_etape2_def etat_initial_def valeurs_de_base_sans_erreur)

lemma valeurs_de_base_inchange:
  "fst (valeurs_de_base a s t p (es, ws, sc)) = es \<Longrightarrow> valeurs_de_base a s t p (es, ws, sc) = (es, ws, sc)"
  by (auto simp: valeurs_de_base_def Let_def split: if_splits)

lemma valider_champs_manquants:
  assumes "filter (manquant d) champs_requis \<noteq> []"
  shows "valider_donnees d =
     Inr \<lparr>est_valide = False,
          erreurs = map ChampManquant (filter (manquant d) champs_requis),
          avertissements = [],
          score_coherence = max 0 (100 - 25 * of_nat (length (filter (manquant d) champs_requis)))\<rparr>"
  using assms by (simp add: valider_donnees_def verifier_champs_initial)

lemma valider_base_invalide:
  assumes "age d = Some a" "sexe d = Some s0" "taille d = Some t" "poids d = Some p"
    and "fst (valeurs_de_base a (lower s0) t p etat_initial) \<noteq> []"
  shows "valider_donnees d = Inr (retour_anticipe (valeurs_de_base a (lower s0) t p etat_initial))"
proof -
  have "filter (manquant d) champs_requis = []"
    using assms(1-4) by (simp add: aucun_manquant)
  then have "verifier_champs d etat_initial = etat_initial"
    using verifier_champs_initial [of d] by (simp add: etat_initial_def)
  then show ?thesis
    using assms by (simp add: valider_donnees_def etat_initial_def)
qed

lemma valider_suite:
  assumes "atteint_etape2 d a s t p"
  shows "valider_donnees d = puis (controles d a s t p etat_initial) (\<lambda>st. Inr (retour_final st))"
proof -
  obtain s0 where f: "age d = Some a" "sexe d = Some s0" "s = lower s0" "taille d = Some t"
      "poids d = Some p" and v: "fst (valeurs_de_base a s t p etat_initial) = []"
    using assms by (auto simp: atteint_etape2_def)
  have "filter (manquant d) champs_requis = []"
    using f by (simp add: aucun_manquant)
  then have c: "verifier_champs d etat_initial = etat_initial"
    using verifier_champs_initial [of d] by (simp add: etat_initial_def)
  have "valeurs_de_base a s t p etat_initial = etat_initial"
    using v valeurs_de_base_inchange [of a s t p "[]" "[]" 100] by (simp add: etat_initial_def)
  then show ?thesis
    using f c by (simp add: valider_donnees_def etat_initial_def)
qed

lemma valider_atteint:
  assumes "atteint_etape2 d a s t p"
  obtains st where "controles d a s t p etat_initial = Inr st"
    and "valider_donnees d = Inr (retour_final st)"
proof -
  have "t \<noteq> 0"
    using assms by (auto simp: atteint_etape2_iff)
  then obtain st where "controles d a s t p etat_initial = Inr st"
    using controles_total by blast
  then show ?thesis
    using that valider_suite [OF assms] by (simp add: puis_Inr)
qed

text \<open>Every record is in exactly one of the three cases.\<close>

lemma valider_donnees_cas:
  obtains (champs) "filter (manquant d) champs_requis \<noteq> []"
  | (base) a s0 t p where "age d = Some a" "sexe d = Some s0" "taille d = Some t" "poids d = Some p"
      "fst (valeurs_de_base a (lower s0) t p etat_initial) \<noteq> []"
  | (suite) a s t p where "atteint_etape2 d a s t p"
proof (cases "filter (manquant d) champs_requis = []")
  case False
  then show ?thesis by (rule champs)
next
  case True
  then obtain a s0 t p where f: "age d = Some a" "sexe d = Some s0" "taille d = Some t" "poids d = Some p"
    by (auto simp: aucun_manquant)
  show ?thesis
  proof (cases "fst (valeurs_de_base a (lower s0) t p etat_initial) = []")
    case False
    with f show ?thesis by (rule base)
  next
    case True
    with f have "atteint_etape2 d a (lower s0) t p"
      by (simp add: atteint_etape2_def)
    then show ?thesis by (rule suite)
  qed
qed

lemma retour_anticipe_valide:
  "fst st \<noteq> [] \<Longrightarrow> est_valide (retour_anticipe st) = (erreurs (retour_anticipe st) = [])"
  by (cases st) simp

lemma retour_final_valide:
  "est_valide (retour_final st) = (erreurs (retour_final st) = [])"
  by (cases st) simp

lemma retour_anticipe_score:
  "snd (snd st) \<le> 100 \<Longrightarrow>
     0 \<le> score_coherence (retour_anticipe st) \<and> score_coherence (retour_anticipe st) \<le> 100"
  by (cases st) simp

lemma retour_final_score:
  "0 \<le> score_coherence (retour_final st) \<and> score_coherence (retour_final st) \<le> 100"
  by (cases st) simp


subsection \<open>The table of height ranges\<close>

lemma plages_homme:
  "map_of taille_normale ''homme'' =
     Some [((0, 2), (50, 90)), ((2, 5), (85, 115)), ((5, 10), (105, 145)),
           ((10, 15), (130, 180)), ((15, 20), (155, 200)), ((20, 150), (150, 210))]"
  by (simp add: taille_normale_def)

lemma plages_femme:
  "map_of taille_normale ''femme'' =
     Some [((0, 2), (48, 88)), ((2, 5), (83, 112)), ((5, 10), (103, 142)),
           ((10, 15), (130, 175)), ((15, 20), (150, 185)), ((20, 150), (145, 195))]"
  by (simp add: taille_normale_def)

text \<open>Both sexes have the same six age intervals.\<close>

lemma intervalles_des_ages:
  assumes "s = ''homme'' \<or> s = ''femme''"
  obtains plages where "map_of taille_normale s = Some plages"
    and "map fst plages = [(0, 2), (2, 5), (5, 10), (10, 15), (15, 20), (20, 150)]"
  using assms plages_homme plages_femme by auto

lemma chercher_plage_map:
  "chercher_plage plages a = None \<longleftrightarrow> (\<forall>iv \<in> set (map fst plages). \<not> contient iv a)"
  by (induction plages a rule: chercher_plage.induct) auto

lemma chercher_plage_premier:
  "chercher_plage plages a = Some v \<Longrightarrow>
     \<exists>i<length plages. contient (fst (plages ! i)) a \<and> v = snd (plages ! i)"
proof (induction plages a rule: chercher_plage.induct)
  case (1 a)
  then show ?case by simp
next
  case (2 intervalle taille_min taille_max reste a)
  show ?case
  proof (cases "contient intervalle a")
    case True
    with 2 show ?thesis by auto
  next
    case False
    with 2 obtain i where "i < length reste" "contient (fst (reste ! i)) a" "v = snd (reste ! i)"
      by auto
    then show ?thesis
      by (intro exI [of _ "Suc i"]) simp
  qed
qed

lemma disjoints_par_indices:
  "(\<forall>i j. i < j \<and> j < length plages \<longrightarrow>
      \<not> (\<exists>a. contient (fst (plages ! i)) a \<and> contient (fst (plages ! j)) a)) \<longleftrightarrow>
   sorted_wrt (\<lambda>x y. \<forall>a. \<not> (contient x a \<and> contient y a)) (map fst plages)"
  by (auto simp: sorted_wrt_iff_nth_less)

lemma couverture_par_indices:
  "(\<exists>i<length plages. contient (fst (plages ! i)) a) \<longleftrightarrow>
   (\<exists>iv \<in> set (map fst plages). contient iv a)"
proof
  assume "\<exists>i<length plages. contient (fst (plages ! i)) a"
  then obtain i where "i < length plages" "contient (fst (plages ! i)) a"
    by blast
  then have "fst (plages ! i) \<in> set (map fst plages)" "contient (fst (plages ! i)) a"
    by simp_all
  then show "\<exists>iv \<in> set (map fst plages). contient iv a"
    by blast
next
  assume "\<exists>iv \<in> set (map fst plages). contient iv a"
  then obtain x where "x \<in> set plages" "contient (fst x) a"
    by auto
  then show "\<exists>i<length plages. contient (fst (plages ! i)) a"
    by (metis in_set_conv_nth)
qed

lemma six_disjoints:
  "sorted_wrt (\<lambda>x y. \<forall>a. \<not> (contient x a \<and> contient y a))
     [(0, 2), (2, 5), (5, 10), (10, 15), (15, 20), (20, 150)]"
  by simp

lemma six_couvrent:
  "(\<exists>iv \<in> set [(0, 2), (2, 5), (5, 10), (10, 15), (15, 20), (20, 150)]. contient iv a) \<longleftrightarrow>
     0 \<le> a \<and> a < 150"
  by (simp, arith)


lemma table_disjointe_et_couvrante:
  assumes "map fst plages = [(0, 2), (2, 5), (5, 10), (10, 15), (15, 20), (20, 150)]"
  shows "\<forall>i j. i < j \<and> j < length plages \<longrightarrow>
           \<not> (\<exists>a. contient (fst (plages ! i)) a \<and> contient (fst (plages ! j)) a)"
    and "(\<exists>i<length plages. contient (fst (plages ! i)) a) \<longleftrightarrow> 0 \<le> a \<and> a < 150"
    and "0 \<le> a \<and> a < 150 \<Longrightarrow>
           \<exists>i<length plages. contient (fst (plages ! i)) a \<and>
             (\<forall>j<length plages. contient (fst (plages ! j)) a \<longrightarrow> j = i) \<and>
             chercher_plage plages a = Some (snd (plages ! i))"
proof -
  show d: "\<forall>i j. i < j \<and> j < length plages \<longrightarrow>
           \<not> (\<exists>a. contient (fst (plages ! i)) a \<and> contient (fst (plages ! j)) a)"
    unfolding disjoints_par_indices assms by (rule six_disjoints)
  show c: "(\<exists>i<length plages. contient (fst (plages ! i)) a) \<longleftrightarrow> 0 \<le> a \<and> a < 150"
    unfolding couverture_par_indices assms by (rule six_couvrent)
  assume "0 \<le> a \<and> a < 150"
  with c have "\<exists>iv \<in> set (map fst plages). contient iv a"
    unfolding couverture_par_indices by simp
  then have "chercher_plage plages a \<noteq> None"
    by (simp only: chercher_plage_map) blast
  then obtain v where "chercher_plage plages a = Some v"
    by blast
  then obtain i where i: "i < length plages" "contient (fst (plages ! i)) a"
      "chercher_plage plages a = Some (snd (plages ! i))"
    using chercher_plage_premier by blast
  have "j = i" if "j < length plages" "contient (fst (plages ! j)) a" for j
  proof (rule ccontr)
    assume "j \<noteq> i"
    then consider "j < i" | "i < j"
      by arith
    then show False
      using d i(1,2) that by cases blast+
  qed
  with i show "\<exists>i<length plages. contient (fst (plages ! i)) a \<and>
             (\<forall>j<length plages. contient (fst (plages ! j)) a \<longrightarrow> j = i) \<and>
             chercher_plage plages a = Some (snd (plages ! i))"
    by blast
qed

subsection \<open>Evaluating binary64 roundings\<close>

text \<open>
  Each value below was obtained by unfolding \<open>arrondi\<close> on the numerals; the fractions
  are the exact values of the floats.
\<close>

lemma plancher_numeraux: "\<lfloor>numeral a / numeral b :: rat\<rfloor> = numeral a div numeral b"
  using floor_divide_of_int_eq [of "numeral a" "numeral b", where ?'a = rat] by simp






lemma b64_0_98: "arrondi (98 / 100) = 2206763817411543 / 2251799813685248"
  unfolding arrondi_def Let_def
  apply (simp add: exposant_def nb_bits.simps plancher_numeraux deux_puissance_def)
  apply (simp add: entier_pair_proche_def Let_def plancher_numeraux)
  done

lemma b64_1_06: "arrondi (106 / 100) = 2386907802506363 / 2251799813685248"
  unfolding arrondi_def Let_def
  apply (simp add: exposant_def nb_bits.simps plancher_numeraux deux_puissance_def)
  apply (simp add: entier_pair_proche_def Let_def plancher_numeraux)
  done

lemma b64_0_1: "arrondi (1 / 10) = 3602879701896397 / 36028797018963968"
  unfolding arrondi_def Let_def
  apply (simp add: exposant_def nb_bits.simps plancher_numeraux deux_puissance_def)
  apply (simp add: entier_pair_proche_def Let_def plancher_numeraux)
  done

lemma b64_seuil_bas: "arrondi (2206763817411543 / 2251799813685248 - 3602879701896397 / 36028797018963968) = 7926335344172073 / 9007199254740992"
  unfolding arrondi_def Let_def
  apply (simp add: exposant_def nb_bits.simps plancher_numeraux deux_puissance_def)
  apply (simp add: entier_pair_proche_def Let_def plancher_numeraux)
  done

lemma b64_seuil_haut: "arrondi (2386907802506363 / 2251799813685248 + 3602879701896397 / 36028797018963968) = 326510972984361 / 281474976710656"
  unfolding arrondi_def Let_def
  apply (simp add: exposant_def nb_bits.simps plancher_numeraux deux_puissance_def)
  apply (simp add: entier_pair_proche_def Let_def plancher_numeraux)
  done





lemma b64_petit_sur_100: "arrondi (1 / 2 ^ 540 / 100) = 5764607523034235 / 2 ^ 599"
  unfolding arrondi_def Let_def
  apply (simp add: exposant_def nb_bits.simps plancher_numeraux deux_puissance_def)
  apply (simp add: entier_pair_proche_def Let_def plancher_numeraux)
  done

lemma b64_carre_petit: "arrondi ((5764607523034235 / 2 ^ 599) * (5764607523034235 / 2 ^ 599)) = 0"
  unfolding arrondi_def Let_def
  apply (simp add: exposant_def nb_bits.simps plancher_numeraux deux_puissance_def)
  apply (simp add: entier_pair_proche_def Let_def plancher_numeraux)
  done


subsection \<open>The checks in floating point\<close>

lemma exacte_simps:
  "fl_lit exacte x = x" "fl_add exacte x y = x + y" "fl_sub exacte x y = x - y"
  "fl_mul exacte x y = x * y" "fl_div exacte x y = x / y" "fl_carre exacte x = x ^ 2"
  by (simp_all add: exacte_def)

lemma binary64_simps:
  "fl_lit binary64 x = arrondi x" "fl_add binary64 x y = arrondi (x + y)"
  "fl_sub binary64 x y = arrondi (x - y)" "fl_mul binary64 x y = arrondi (x * y)"
  "fl_div binary64 x y = arrondi (x / y)" "fl_carre binary64 x = arrondi (x * x)"
  by (simp_all add: binary64_def)

lemma diviser_f_Inr: "y \<noteq> 0 \<Longrightarrow> diviser_f ar x y = Inr (fl_div ar x y)"
  by (simp add: diviser_f_def)

lemma lire_ratio_f_tour_taille:
  "lire_ratio_f ar ''tour_taille_taille'' = Inr (fl_lit ar (35 / 100), fl_lit ar (55 / 100))"
  by (simp add: lire_ratio_f_def ratios_normaux_f_def)

lemma lire_ratio_f_envergure:
  "lire_ratio_f ar ''envergure_taille'' = Inr (fl_lit ar (98 / 100), fl_lit ar (106 / 100))"
  by (simp add: lire_ratio_f_def ratios_normaux_f_def)

lemma lire_ratio_f_jambe:
  "lire_ratio_f ar ''longueur_jambe_taille'' = Inr (fl_lit ar (45 / 100), fl_lit ar (53 / 100))"
  by (simp add: lire_ratio_f_def ratios_normaux_f_def)

text \<open>In exact arithmetic the floating-point definitions are the exact ones.\<close>

lemma diviser_f_exacte: "diviser_f exacte x y = diviser x y"
  by (simp add: diviser_f_def diviser_def exacte_simps)

lemma lire_ratio_f_exacte: "lire_ratio_f exacte k = lire_ratio k"
  by (simp add: lire_ratio_f_def lire_ratio_def ratios_normaux_f_def ratios_normaux_def
      exacte_simps)

lemma validation_imc_f_exacte: "validation_imc_f exacte t p st = validation_imc t p st"
  by (simp add: validation_imc_f_def validation_imc_def diviser_f_exacte exacte_simps)

lemma ratio_tour_taille_f_exacte: "ratio_tour_taille_f exacte d t st = ratio_tour_taille d t st"
  by (simp add: ratio_tour_taille_f_def ratio_tour_taille_def diviser_f_exacte
      lire_ratio_f_exacte split: option.splits)

lemma juger_envergure_f_exacte:
  "juger_envergure_f exacte r plage e t st = juger_envergure r plage e t st"
  by (simp add: juger_envergure_f_def juger_envergure_def exacte_simps)

lemma ratio_envergure_f_exacte: "ratio_envergure_f exacte d t st = ratio_envergure d t st"
  by (simp add: ratio_envergure_f_def ratio_envergure_def diviser_f_exacte
      lire_ratio_f_exacte juger_envergure_f_exacte split: option.splits)

lemma ratio_jambe_f_exacte: "ratio_jambe_f exacte d t st = ratio_jambe d t st"
  by (simp add: ratio_jambe_f_def ratio_jambe_def diviser_f_exacte
      lire_ratio_f_exacte split: option.splits)

lemma poids_adulte_f_exacte: "poids_adulte_f exacte a t p st = poids_adulte a t p st"
  by (simp add: poids_adulte_f_def poids_adulte_def exacte_simps)

lemma estimer_poids_enfant_f_exacte:
  "estimer_poids_enfant_f exacte a t s = estimer_poids_enfant a t s"
  by (simp add: estimer_poids_enfant_f_def estimer_poids_enfant_def exacte_simps)

lemma poids_enfant_f_exacte: "poids_enfant_f exacte a s t p st = poids_enfant a s t p st"
  by (simp add: poids_enfant_f_def poids_enfant_def diviser_f_exacte
      estimer_poids_enfant_f_exacte exacte_simps Let_def)

lemma controles_f_exacte: "controles_f exacte d a s t p st = controles d a s t p st"
  by (simp add: controles_f_def controles_def validation_imc_f_exacte
      ratio_tour_taille_f_exacte ratio_envergure_f_exacte ratio_jambe_f_exacte
      poids_adulte_f_exacte poids_enfant_f_exacte)

lemma valider_donnees_f_exacte: "valider_donnees_f exacte d = valider_donnees d"
  by (simp add: valider_donnees_f_def valider_donnees_def controles_f_exacte Let_def
      split: option.splits)

text \<open>
  A step raises only when the float square of \<open>taille / 100\<close> is zero; otherwise it is
  its branching part, as in exact arithmetic.
\<close>

lemma validation_imc_f_Inr:
  "fl_carre ar (fl_div ar t 100) \<noteq> 0 \<Longrightarrow>
     validation_imc_f ar t p st =
       Inr (juger_imc (fl_div ar p (fl_carre ar (fl_div ar t 100))) p t st)"
  by (simp add: validation_imc_f_def diviser_f_Inr puis_Inr)

lemma validation_imc_f_Inl:
  "fl_carre ar (fl_div ar t 100) = 0 \<Longrightarrow> validation_imc_f ar t p st = Inl ZeroDivisionError"
  by (simp add: validation_imc_f_def diviser_f_def puis_def)

lemma ratio_tour_taille_f_Inr:
  "t \<noteq> 0 \<Longrightarrow> ratio_tour_taille_f ar d t st =
     Inr (case tour_taille d of
            None \<Rightarrow> st
          | Some tt \<Rightarrow>
              if tt = 0 then st
              else juger_tour_taille (fl_div ar tt t)
                     (fl_lit ar (35 / 100), fl_lit ar (55 / 100)) st)"
  by (simp add: ratio_tour_taille_f_def diviser_f_Inr puis_Inr lire_ratio_f_tour_taille
      split: option.splits)

lemma ratio_envergure_f_Inr:
  "t \<noteq> 0 \<Longrightarrow> ratio_envergure_f ar d t st =
     Inr (case envergure d of
            None \<Rightarrow> st
          | Some e \<Rightarrow>
              if e = 0 then st
              else juger_envergure_f ar (fl_div ar e t)
                     (fl_lit ar (98 / 100), fl_lit ar (106 / 100)) e t st)"
  by (simp add: ratio_envergure_f_def diviser_f_Inr puis_Inr lire_ratio_f_envergure
      split: option.splits)

lemma ratio_jambe_f_Inr:
  "t \<noteq> 0 \<Longrightarrow> ratio_jambe_f ar d t st =
     Inr (case longueur_jambe d of
            None \<Rightarrow> st
          | Some l \<Rightarrow>
              if l = 0 then st
              else juger_jambe (fl_div ar l t) (fl_lit ar (45 / 100), fl_lit ar (53 / 100)) st)"
  by (simp add: ratio_jambe_f_def diviser_f_Inr puis_Inr lire_ratio_f_jambe
      split: option.splits)

lemma poids_enfant_f_Inr:
  "poids_enfant_f ar a s t p st =
     Inr (if a < 18 \<and> estimer_poids_enfant_f ar a t s \<noteq> 0
          then juger_poids_enfant
                 (fl_div ar \<bar>fl_sub ar p (estimer_poids_enfant_f ar a t s)\<bar>
                    (estimer_poids_enfant_f ar a t s)) p
                 (estimer_poids_enfant_f ar a t s) st
          else st)"
  by (simp add: poids_enfant_f_def Let_def diviser_f_Inr puis_Inr)

lemma err_juger_envergure_f:
  "x \<in> set (fst (juger_envergure_f ar r (lo, hi) e t st)) \<longleftrightarrow>
     x \<in> set (fst st) \<or>
     ((r < fl_sub ar lo (fl_lit ar (1 / 10)) \<or> r > fl_add ar hi (fl_lit ar (1 / 10))) \<and>
      x = RatioEnvergure r lo hi)"
  by (cases st) (auto simp: juger_envergure_f_def)


lemma err_poids_adulte_f:
  "x \<in> set (fst (poids_adulte_f ar a t p st)) \<longleftrightarrow>
     x \<in> set (fst st) \<or>
     (a \<ge> 18 \<and>
      (p < fl_mul ar (fl_mul ar 16 (fl_carre ar (fl_div ar t 100))) (fl_lit ar (8 / 10)) \<or>
       p > fl_mul ar (fl_mul ar 35 (fl_carre ar (fl_div ar t 100))) (fl_lit ar (12 / 10))) \<and>
      x = PoidsTailleAge t p (fl_mul ar 16 (fl_carre ar (fl_div ar t 100)))
            (fl_mul ar 35 (fl_carre ar (fl_div ar t 100))))"
  by (cases st) (auto simp: poids_adulte_f_def Let_def)


lemma err_pas_envergure_f:
  "x \<in> set (fst (case envergure d of
                    None \<Rightarrow> st
                  | Some e \<Rightarrow>
                      if e = 0 then st
                      else juger_envergure_f ar (fl_div ar e t) (lo, hi) e t st)) \<longleftrightarrow>
     x \<in> set (fst st) \<or>
     (\<exists>e. envergure d = Some e \<and> e \<noteq> 0 \<and>
        (fl_div ar e t < fl_sub ar lo (fl_lit ar (1 / 10)) \<or>
         fl_div ar e t > fl_add ar hi (fl_lit ar (1 / 10))) \<and>
        x = RatioEnvergure (fl_div ar e t) lo hi)"
  by (cases "envergure d") (auto simp: err_juger_envergure_f)


lemma err_pas_tour_taille_f:
  "x \<in> set (fst (case tour_taille d of
                    None \<Rightarrow> st
                  | Some tt \<Rightarrow>
                      if tt = 0 then st else juger_tour_taille (fl_div ar tt t) (lo, hi) st)) \<longleftrightarrow>
     x \<in> set (fst st) \<or>
     (\<exists>tt. tour_taille d = Some tt \<and> tt \<noteq> 0 \<and>
        (fl_div ar tt t < lo \<or> fl_div ar tt t > hi) \<and>
        x = RatioTourTaille (fl_div ar tt t) lo hi)"
  by (cases "tour_taille d") (auto simp: err_juger_tour_taille)

lemma err_pas_jambe_f:
  "x \<in> set (fst (case longueur_jambe d of
                    None \<Rightarrow> st
                  | Some l \<Rightarrow>
                      if l = 0 then st else juger_jambe (fl_div ar l t) (lo, hi) st)) \<longleftrightarrow>
     x \<in> set (fst st) \<or>
     (\<exists>l. longueur_jambe d = Some l \<and> l \<noteq> 0 \<and>
        (fl_div ar l t < lo \<or> fl_div ar l t > hi) \<and>
        x = RatioJambe (fl_div ar l t) lo hi)"
  by (cases "longueur_jambe d") (auto simp: err_juger_jambe)



lemma controles_f_Inr:
  assumes "t \<noteq> 0" and "fl_carre ar (fl_div ar t 100) \<noteq> 0"
  shows "controles_f ar d a s t p st =
     Inr (let st = coherence_taille a s t st;
              st = juger_imc (fl_div ar p (fl_carre ar (fl_div ar t 100))) p t st;
              st = (case tour_taille d of
                      None \<Rightarrow> st
                    | Some tt \<Rightarrow>
                        if tt = 0 then st
                        else juger_tour_taille (fl_div ar tt t)
                               (fl_lit ar (35 / 100), fl_lit ar (55 / 100)) st);
              st = (case envergure d of
                      None \<Rightarrow> st
                    | Some e \<Rightarrow>
                        if e = 0 then st
                        else juger_envergure_f ar (fl_div ar e t)
                               (fl_lit ar (98 / 100), fl_lit ar (106 / 100)) e t st);
              st = (case longueur_jambe d of
                      None \<Rightarrow> st
                    | Some l \<Rightarrow>
                        if l = 0 then st
                        else juger_jambe (fl_div ar l t)
                               (fl_lit ar (45 / 100), fl_lit ar (53 / 100)) st);
              st = poids_adulte_f ar a t p st;
              st = (if a < 18 \<and> estimer_poids_enfant_f ar a t s \<noteq> 0
                    then juger_poids_enfant
                           (fl_div ar \<bar>fl_sub ar p (estimer_poids_enfant_f ar a t s)\<bar>
                              (estimer_poids_enfant_f ar a t s)) p
                           (estimer_poids_enfant_f ar a t s) st
                    else st)
          in jambe_envergure d (tour_taille_envergure d st))"
  using assms
  by (simp add: controles_f_def puis_Inr validation_imc_f_Inr ratio_tour_taille_f_Inr
      ratio_envergure_f_Inr ratio_jambe_f_Inr poids_enfant_f_Inr Let_def)

lemma controles_f_Inl:
  "fl_carre ar (fl_div ar t 100) = 0 \<Longrightarrow> controles_f ar d a s t p st = Inl ZeroDivisionError"
  by (simp add: controles_f_def validation_imc_f_Inl puis_def)

lemma controles_f_erreurs:
  assumes "t \<noteq> 0" and "fl_carre ar (fl_div ar t 100) \<noteq> 0"
    and "controles_f ar d a s t p st = Inr st'"
  shows "x \<in> set (fst st') \<longleftrightarrow>
     x \<in> set (fst st) \<or>
     (\<exists>lo hi. obtenir_plage_taille a s = Some (lo, hi) \<and> (t < lo \<or> t > hi) \<and>
        x = TailleIncoherente s a t lo hi) \<or>
     ((fl_div ar p (fl_carre ar (fl_div ar t 100)) < 10 \<or>
       fl_div ar p (fl_carre ar (fl_div ar t 100)) > 50) \<and>
        x = IMCExtreme (fl_div ar p (fl_carre ar (fl_div ar t 100))) p t) \<or>
     (\<exists>tt. tour_taille d = Some tt \<and> tt \<noteq> 0 \<and>
        (fl_div ar tt t < fl_lit ar (35 / 100) \<or> fl_div ar tt t > fl_lit ar (55 / 100)) \<and>
        x = RatioTourTaille (fl_div ar tt t) (fl_lit ar (35 / 100)) (fl_lit ar (55 / 100))) \<or>
     (\<exists>e. envergure d = Some e \<and> e \<noteq> 0 \<and>
        (fl_div ar e t < fl_sub ar (fl_lit ar (98 / 100)) (fl_lit ar (1 / 10)) \<or>
         fl_div ar e t > fl_add ar (fl_lit ar (106 / 100)) (fl_lit ar (1 / 10))) \<and>
        x = RatioEnvergure (fl_div ar e t) (fl_lit ar (98 / 100)) (fl_lit ar (106 / 100))) \<or>
     (\<exists>l. longueur_jambe d = Some l \<and> l \<noteq> 0 \<and>
        (fl_div ar l t < fl_lit ar (45 / 100) \<or> fl_div ar l t > fl_lit ar (53 / 100)) \<and>
        x = RatioJambe (fl_div ar l t) (fl_lit ar (45 / 100)) (fl_lit ar (53 / 100))) \<or>
     (a \<ge> 18 \<and>
      (p < fl_mul ar (fl_mul ar 16 (fl_carre ar (fl_div ar t 100))) (fl_lit ar (8 / 10)) \<or>
       p > fl_mul ar (fl_mul ar 35 (fl_carre ar (fl_div ar t 100))) (fl_lit ar (12 / 10))) \<and>
      x = PoidsTailleAge t p (fl_mul ar 16 (fl_carre ar (fl_div ar t 100)))
            (fl_mul ar 35 (fl_carre ar (fl_div ar t 100)))) \<or>
     (\<exists>tt e. tour_taille d = Some tt \<and> envergure d = Some e \<and> tt \<noteq> 0 \<and> e \<noteq> 0 \<and> tt > e \<and>
        x = TourTailleSupEnvergure tt e) \<or>
     (\<exists>l e. longueur_jambe d = Some l \<and> envergure d = Some e \<and> l \<noteq> 0 \<and> e \<noteq> 0 \<and> l > e \<and>
        x = JambeSupEnvergure l e)"
proof -
  have "Inr st' = controles_f ar d a s t p st"
    using assms(3) by simp
  also note controles_f_Inr [OF assms(1,2)]
  finally show ?thesis
    unfolding Let_def sum.inject
    by (simp only: err_jambe_envergure err_tour_taille_envergure err_pas_poids_enfant
        err_poids_adulte_f err_pas_jambe_f err_pas_envergure_f err_pas_tour_taille_f
        err_juger_imc err_coherence_taille disj_assoc)
qed


lemma valider_f_suite:
  assumes "atteint_etape2 d a s t p"
  shows "valider_donnees_f ar d =
     puis (controles_f ar d a s t p etat_initial) (\<lambda>st. Inr (retour_final st))"
proof -
  obtain s0 where f: "age d = Some a" "sexe d = Some s0" "s = lower s0" "taille d = Some t"
      "poids d = Some p" and v: "fst (valeurs_de_base a s t p etat_initial) = []"
    using assms by (auto simp: atteint_etape2_def)
  have "filter (manquant d) champs_requis = []"
    using f by (simp add: aucun_manquant)
  then have c: "verifier_champs d etat_initial = etat_initial"
    using verifier_champs_initial [of d] by (simp add: etat_initial_def)
  have "valeurs_de_base a s t p etat_initial = etat_initial"
    using v valeurs_de_base_inchange [of a s t p "[]" "[]" 100] by (simp add: etat_initial_def)
  then show ?thesis
    using f c by (simp add: valider_donnees_f_def etat_initial_def)
qed

lemma valider_f_atteint:
  assumes "atteint_etape2 d a s t p" and "fl_carre ar (fl_div ar t 100) \<noteq> 0"
  obtains st where "controles_f ar d a s t p etat_initial = Inr st"
    and "valider_donnees_f ar d = Inr (retour_final st)"
proof -
  have "t \<noteq> 0"
    using assms(1) by (auto simp: atteint_etape2_iff)
  then obtain st where "controles_f ar d a s t p etat_initial = Inr st"
    using controles_f_Inr [OF _ assms(2)] by blast
  then show ?thesis
    using that valider_f_suite [OF assms(1)] by (simp add: puis_Inr)
qed

lemma valider_f_division_par_zero:
  assumes "atteint_etape2 d a s t p" and "fl_carre ar (fl_div ar t 100) = 0"
  shows "valider_donnees_f ar d = Inl ZeroDivisionError"
  using valider_f_suite [OF assms(1)] controles_f_Inl [OF assms(2)]
  by (simp add: puis_def)


text \<open>
  In binary64 the square of \<open>taille / 100\<close> underflows to zero for a height such as
  \<open>2 ^ -540\<close>, and line 119 then raises.
\<close>

lemma valider_f_soupassement:
  "valider_donnees_f binary64
     \<lparr>age = Some 14, sexe = Some ''homme'', taille = Some (1 / 2 ^ 540), poids = Some 50,
      tour_taille = None, envergure = None, longueur_jambe = None\<rparr> =
   Inl ZeroDivisionError"
proof -
  have h: "atteint_etape2
     \<lparr>age = Some 14, sexe = Some ''homme'', taille = Some (1 / 2 ^ 540), poids = Some 50,
      tour_taille = None, envergure = None, longueur_jambe = None\<rparr>
     14 ''homme'' (1 / 2 ^ 540) 50"
    by (simp add: atteint_etape2_iff lower_def lower_char_def)
  have c: "fl_carre binary64 (fl_div binary64 (1 / 2 ^ 540) 100) = 0"
    by (simp only: binary64_simps b64_petit_sur_100 b64_carre_petit)
  show ?thesis
    using h c by (rule valider_f_division_par_zero)
qed

text \<open>Whatever the arithmetic, a returned result obeys the relations of Claims C1 and C2.\<close>

lemma valider_donnees_f_retour:
  assumes "valider_donnees_f ar d = Inr r"
  shows "est_valide r = (erreurs r = []) \<and> 0 \<le> score_coherence r \<and> score_coherence r \<le> 100"
proof (cases d rule: valider_donnees_cas)
  case champs
  then have "valider_donnees_f ar d = valider_donnees d"
    by (simp add: valider_donnees_f_def valider_donnees_def verifier_champs_initial)
  then show ?thesis
    using assms champs by (simp add: valider_champs_manquants)
next
  case (base a s0 t p)
  have "snd (snd (valeurs_de_base a (lower s0) t p etat_initial)) \<le> 100"
    using valeurs_de_base_score [of a "lower s0" t p "[]" "[]" 100] by (simp add: etat_initial_def)
  moreover have "valider_donnees_f ar d = valider_donnees d"
  proof -
    have "filter (manquant d) champs_requis = []"
      using base(1-4) by (simp add: aucun_manquant)
    then have "verifier_champs d etat_initial = etat_initial"
      using verifier_champs_initial [of d] by (simp add: etat_initial_def)
    then show ?thesis
      using base by (simp add: valider_donnees_f_def valider_donnees_def etat_initial_def)
  qed
  ultimately show ?thesis
    using assms base by (simp add: valider_base_invalide retour_anticipe_valide retour_anticipe_score)
next
  case (suite a s t p)
  then have "valider_donnees_f ar d =
      puis (controles_f ar d a s t p etat_initial) (\<lambda>st. Inr (retour_final st))"
    by (rule valider_f_suite)
  then obtain st where "r = retour_final st"
    using assms by (cases "controles_f ar d a s t p etat_initial") (auto simp: puis_def)
  then show ?thesis
    by (simp add: retour_final_valide retour_final_score)
qed

subsection \<open>The other checks in floating point\<close>

text \<open>
  A record that does not get past Step 1 meets no floating-point operation: both early
  returns are the same in every arithmetic.
\<close>

lemma valider_f_retour_anticipe:
  assumes "\<not> (\<exists>a s t p. atteint_etape2 d a s t p)"
  shows "valider_donnees_f ar d = valider_donnees d"
proof (cases d rule: valider_donnees_cas)
  case champs
  then show ?thesis
    by (simp add: valider_donnees_f_def valider_donnees_def verifier_champs_initial)
next
  case (base a s0 t p)
  have "filter (manquant d) champs_requis = []"
    using base(1-4) by (simp add: aucun_manquant)
  then have "verifier_champs d etat_initial = etat_initial"
    using verifier_champs_initial [of d] by (simp add: etat_initial_def)
  then show ?thesis
    using base by (simp add: valider_donnees_f_def valider_donnees_def etat_initial_def)
next
  case (suite a s t p)
  then show ?thesis
    using assms by blast
qed

text \<open>Steps 7 and 8 compare the inputs themselves: the cross-checks in any arithmetic.\<close>

lemma controles_croises_f:
  assumes "atteint_etape2 d a s t p" and "fl_carre ar (fl_div ar t 100) \<noteq> 0"
  shows "\<exists>r. valider_donnees_f ar d = Inr r \<and>
     (\<forall>x y. TourTailleSupEnvergure x y \<in> set (erreurs r) \<longleftrightarrow>
        tour_taille d = Some x \<and> envergure d = Some y \<and> x \<noteq> 0 \<and> y \<noteq> 0 \<and> x > y) \<and>
     (\<forall>x y. JambeSupEnvergure x y \<in> set (erreurs r) \<longleftrightarrow>
        longueur_jambe d = Some x \<and> envergure d = Some y \<and> x \<noteq> 0 \<and> y \<noteq> 0 \<and> x > y)"
proof -
  have t: "t \<noteq> 0"
    using assms(1) by (auto simp: atteint_etape2_iff)
  obtain st where c: "controles_f ar d a s t p etat_initial = Inr st"
    and v: "valider_donnees_f ar d = Inr (retour_final st)"
    using assms by (rule valider_f_atteint)
  have er: "erreurs (retour_final st) = fst st"
    by (cases st) simp
  have e1: "\<And>x y. TourTailleSupEnvergure x y \<in> set (fst st) \<longleftrightarrow>
        tour_taille d = Some x \<and> envergure d = Some y \<and> x \<noteq> 0 \<and> y \<noteq> 0 \<and> x > y"
    by (auto simp: controles_f_erreurs [OF t assms(2) c] etat_initial_def)
  have e2: "\<And>x y. JambeSupEnvergure x y \<in> set (fst st) \<longleftrightarrow>
        longueur_jambe d = Some x \<and> envergure d = Some y \<and> x \<noteq> 0 \<and> y \<noteq> 0 \<and> x > y"
    by (auto simp: controles_f_erreurs [OF t assms(2) c] etat_initial_def)
  show ?thesis
    using v e1 e2 unfolding er [symmetric] by blast
qed

text \<open>The coherent adult of the examples (line 257), in binary64.\<close>

lemma b64_178_sur_100: "arrondi (178 / 100) = 8016407336719483 / 4503599627370496"
  unfolding arrondi_def Let_def
  apply (simp add: exposant_def nb_bits.simps plancher_numeraux deux_puissance_def)
  apply (simp add: entier_pair_proche_def Let_def plancher_numeraux)
  done

lemma b64_carre_1_78: "arrondi ((8016407336719483 / 4503599627370496) * (8016407336719483 / 4503599627370496)) = 1783650632420085 / 562949953421312"
  unfolding arrondi_def Let_def
  apply (simp add: exposant_def nb_bits.simps plancher_numeraux deux_puissance_def)
  apply (simp add: entier_pair_proche_def Let_def plancher_numeraux)
  done

lemma b64_imc_75_178: "arrondi (75 / (1783650632420085 / 562949953421312)) = 3331432782050751 / 140737488355328"
  unfolding arrondi_def Let_def
  apply (simp add: exposant_def nb_bits.simps plancher_numeraux deux_puissance_def)
  apply (simp add: entier_pair_proche_def Let_def plancher_numeraux)
  done

lemma b64_85_sur_178: "arrondi (85 / 178) = 8602381310707689 / 18014398509481984"
  unfolding arrondi_def Let_def
  apply (simp add: exposant_def nb_bits.simps plancher_numeraux deux_puissance_def)
  apply (simp add: entier_pair_proche_def Let_def plancher_numeraux)
  done

lemma b64_180_sur_178: "arrondi (180 / 178) = 4554201870374659 / 4503599627370496"
  unfolding arrondi_def Let_def
  apply (simp add: exposant_def nb_bits.simps plancher_numeraux deux_puissance_def)
  apply (simp add: entier_pair_proche_def Let_def plancher_numeraux)
  done

lemma b64_0_35: "arrondi (35 / 100) = 3152519739159347 / 9007199254740992"
  unfolding arrondi_def Let_def
  apply (simp add: exposant_def nb_bits.simps plancher_numeraux deux_puissance_def)
  apply (simp add: entier_pair_proche_def Let_def plancher_numeraux)
  done

lemma b64_0_55: "arrondi (55 / 100) = 2476979795053773 / 4503599627370496"
  unfolding arrondi_def Let_def
  apply (simp add: exposant_def nb_bits.simps plancher_numeraux deux_puissance_def)
  apply (simp add: entier_pair_proche_def Let_def plancher_numeraux)
  done

lemma b64_16_fois: "arrondi (16 * (1783650632420085 / 562949953421312)) = 1783650632420085 / 35184372088832"
  unfolding arrondi_def Let_def
  apply (simp add: exposant_def nb_bits.simps plancher_numeraux deux_puissance_def)
  apply (simp add: entier_pair_proche_def Let_def plancher_numeraux)
  done

lemma b64_35_fois: "arrondi (35 * (1783650632420085 / 562949953421312)) = 487716969802367 / 4398046511104"
  unfolding arrondi_def Let_def
  apply (simp add: exposant_def nb_bits.simps plancher_numeraux deux_puissance_def)
  apply (simp add: entier_pair_proche_def Let_def plancher_numeraux)
  done

lemma b64_0_8: "arrondi (8 / 10) = 3602879701896397 / 4503599627370496"
  unfolding arrondi_def Let_def
  apply (simp add: exposant_def nb_bits.simps plancher_numeraux deux_puissance_def)
  apply (simp add: entier_pair_proche_def Let_def plancher_numeraux)
  done

lemma b64_1_2: "arrondi (12 / 10) = 5404319552844595 / 4503599627370496"
  unfolding arrondi_def Let_def
  apply (simp add: exposant_def nb_bits.simps plancher_numeraux deux_puissance_def)
  apply (simp add: entier_pair_proche_def Let_def plancher_numeraux)
  done

lemma b64_poids_min: "arrondi ((1783650632420085 / 35184372088832) * (3602879701896397 / 4503599627370496)) = 356730126484017 / 8796093022208"
  unfolding arrondi_def Let_def
  apply (simp add: exposant_def nb_bits.simps plancher_numeraux deux_puissance_def)
  apply (simp add: entier_pair_proche_def Let_def plancher_numeraux)
  done

lemma b64_poids_max: "arrondi ((487716969802367 / 4398046511104) * (5404319552844595 / 4503599627370496)) = 4682082910102723 / 35184372088832"
  unfolding arrondi_def Let_def
  apply (simp add: exposant_def nb_bits.simps plancher_numeraux deux_puissance_def)
  apply (simp add: entier_pair_proche_def Let_def plancher_numeraux)
  done

lemma adulte_coherent_binary64:
  "valider_donnees_f binary64
     \<lparr>age = Some 25, sexe = Some ''homme'', taille = Some 178, poids = Some 75,
      tour_taille = Some 85, envergure = Some 180, longueur_jambe = None\<rparr> =
   Inr \<lparr>est_valide = True, erreurs = [], avertissements = [], score_coherence = 100\<rparr>"
proof -
  have h: "atteint_etape2
     \<lparr>age = Some 25, sexe = Some ''homme'', taille = Some 178, poids = Some 75,
      tour_taille = Some 85, envergure = Some 180, longueur_jambe = None\<rparr>
     25 ''homme'' 178 75"
    by code_simp
  have c: "fl_carre binary64 (fl_div binary64 178 100) = 1783650632420085 / 562949953421312"
    by (simp only: binary64_simps b64_178_sur_100 b64_carre_1_78)
  have ops:
    "fl_div binary64 75 (1783650632420085 / 562949953421312) = 3331432782050751 / 140737488355328"
    "fl_div binary64 85 178 = 8602381310707689 / 18014398509481984"
    "fl_div binary64 180 178 = 4554201870374659 / 4503599627370496"
    "fl_lit binary64 (35 / 100) = 3152519739159347 / 9007199254740992"
    "fl_lit binary64 (55 / 100) = 2476979795053773 / 4503599627370496"
    "fl_lit binary64 (98 / 100) = 2206763817411543 / 2251799813685248"
    "fl_lit binary64 (106 / 100) = 2386907802506363 / 2251799813685248"
    "fl_sub binary64 (2206763817411543 / 2251799813685248) (fl_lit binary64 (1 / 10)) = 7926335344172073 / 9007199254740992"
    "fl_add binary64 (2386907802506363 / 2251799813685248) (fl_lit binary64 (1 / 10)) = 326510972984361 / 281474976710656"
    "fl_mul binary64 (fl_mul binary64 16 (1783650632420085 / 562949953421312)) (fl_lit binary64 (8 / 10)) = 356730126484017 / 8796093022208"
    "fl_mul binary64 (fl_mul binary64 35 (1783650632420085 / 562949953421312)) (fl_lit binary64 (12 / 10)) = 4682082910102723 / 35184372088832"
    by (simp_all only: binary64_simps b64_imc_75_178 b64_85_sur_178 b64_180_sur_178 b64_0_35
        b64_0_55 b64_0_98 b64_1_06 b64_0_1 b64_seuil_bas b64_seuil_haut b64_16_fois b64_35_fois
        b64_0_8 b64_1_2 b64_poids_min b64_poids_max)
  have o: "obtenir_plage_taille 25 ''homme'' = Some (150, 210)"
    by code_simp
  have nz: "(178::rat) \<noteq> 0"
    by simp
  have cnz: "fl_carre binary64 (fl_div binary64 178 100) \<noteq> 0"
    unfolding c by simp
  have "controles_f binary64
     \<lparr>age = Some 25, sexe = Some ''homme'', taille = Some 178, poids = Some 75,
      tour_taille = Some 85, envergure = Some 180, longueur_jambe = None\<rparr>
     25 ''homme'' 178 75 etat_initial = Inr etat_initial"
    unfolding controles_f_Inr [OF nz cnz] Let_def poids_adulte_f_def juger_envergure_f_def
      donnees.simps option.case prod.case c ops
    by (simp add: etat_initial_def coherence_taille_def o juger_imc_def juger_tour_taille_def
        tour_taille_envergure_def jambe_envergure_def renseigne_def ops)
  then show ?thesis
    using valider_f_suite [OF h, of binary64] by (simp add: puis_Inr etat_initial_def)
qed

section \<open>The claims\<close>

text \<open>
  Claim C1. For every input record, the result of \<open>valider_donnees\<close> has \<open>est_valide\<close>
  equal to "the list \<open>erreurs\<close> is empty", whichever of the three return points
  produces it: the return on missing required fields builds \<open>False\<close> with a non-empty
  list, so does the return on a base value out of bounds, and the final return computes
  \<open>len(erreurs) == 0\<close>. No record makes the function raise.
\<close>

theorem validite_ssi_aucune_erreur:
  "\<exists>r. valider_donnees d = Inr r \<and> est_valide r = (erreurs r = [])"
proof (cases d rule: valider_donnees_cas)
  case champs
  then show ?thesis
    by (simp add: valider_champs_manquants)
next
  case (base a s0 t p)
  then show ?thesis
    by (simp add: valider_base_invalide retour_anticipe_valide)
next
  case (suite a s t p)
  then obtain st where "valider_donnees d = Inr (retour_final st)"
    by (rule valider_atteint)
  then show ?thesis
    by (simp add: retour_final_valide)
qed

theorem validite_ssi_aucune_erreur_temoin:
  "\<exists>r. valider_donnees
          \<lparr>age = Some 8, sexe = Some ''femme'', taille = Some 180, poids = Some 30,
           tour_taille = None, envergure = None, longueur_jambe = None\<rparr> = Inr r \<and>
        est_valide r = (erreurs r = [])"
  by (rule validite_ssi_aucune_erreur)

text \<open>
  Claim C2. For every input record, the score of the result lies between 0 and 100, on
  every return path. The early returns clamp at 0 only, and the score they clamp is at
  most 100 because it starts at 100 and Steps 0 and 1 only subtract.
\<close>

theorem score_entre_0_et_100:
  "\<exists>r. valider_donnees d = Inr r \<and> 0 \<le> score_coherence r \<and> score_coherence r \<le> 100"
proof (cases d rule: valider_donnees_cas)
  case champs
  then show ?thesis
    by (simp add: valider_champs_manquants)
next
  case (base a s0 t p)
  have "snd (snd (valeurs_de_base a (lower s0) t p etat_initial)) \<le> 100"
    using valeurs_de_base_score [of a "lower s0" t p "[]" "[]" 100] by (simp add: etat_initial_def)
  with base show ?thesis
    by (simp add: valider_base_invalide retour_anticipe_score)
next
  case (suite a s t p)
  then obtain st where "valider_donnees d = Inr (retour_final st)"
    by (rule valider_atteint)
  then show ?thesis
    by (simp add: retour_final_score)
qed

theorem score_entre_0_et_100_temoin:
  "\<exists>r. valider_donnees
          \<lparr>age = None, sexe = None, taille = None, poids = None,
           tour_taille = None, envergure = None, longueur_jambe = None\<rparr> = Inr r \<and>
        0 \<le> score_coherence r \<and> score_coherence r \<le> 100"
  by (rule score_entre_0_et_100)

text \<open>
  Claim C3. A record that lacks \<open>k \<ge> 1\<close> of the four required keys (absent or null)
  makes \<open>valider_donnees\<close> return at once: \<open>est_valide\<close> is false, the errors are one
  missing-field error per missing key, in the order of \<open>champs_requis\<close>, and nothing
  else, there is no warning, and the score is \<open>max(0, 100 - 25 k)\<close>.
\<close>

theorem champs_manquants_retour_immediat:
  assumes "k = length (filter (manquant d) champs_requis)" and "1 \<le> k"
  shows "valider_donnees d =
     Inr \<lparr>est_valide = False,
          erreurs = map ChampManquant (filter (manquant d) champs_requis),
          avertissements = [],
          score_coherence = max 0 (100 - 25 * of_nat k)\<rparr>"
proof -
  have "filter (manquant d) champs_requis \<noteq> []"
    using assms by auto
  then show ?thesis
    using assms(1) by (simp add: valider_champs_manquants)
qed

theorem champs_manquants_retour_immediat_temoin:
  "(2::nat) = length (filter (manquant
       \<lparr>age = None, sexe = Some ''homme'', taille = Some 178, poids = None,
        tour_taille = Some 200, envergure = Some 180, longueur_jambe = None\<rparr>) champs_requis) \<and>
   (1::nat) \<le> 2 \<and>
   valider_donnees
       \<lparr>age = None, sexe = Some ''homme'', taille = Some 178, poids = None,
        tour_taille = Some 200, envergure = Some 180, longueur_jambe = None\<rparr> =
     Inr \<lparr>est_valide = False,
          erreurs = [ChampManquant ''age'', ChampManquant ''poids''],
          avertissements = [],
          score_coherence = 50\<rparr>"
proof -
  have k: "(2::nat) = length (filter (manquant
       \<lparr>age = None, sexe = Some ''homme'', taille = Some 178, poids = None,
        tour_taille = Some 200, envergure = Some 180, longueur_jambe = None\<rparr>) champs_requis)"
    by (simp add: manquant_def champs_requis_def)
  show ?thesis
    using k champs_manquants_retour_immediat [OF k]
    by (simp add: manquant_def champs_requis_def)
qed

text \<open>
  Claim C4. A record with the four required fields present, sex, height and weight
  within the bounds of Step 1 and age 150 makes \<open>valider_donnees\<close> return right after
  Step 1: \<open>est_valide\<close> is false, the only error is the one about the age, there is no
  warning and the score is 80, whatever the optional fields hold.
\<close>

theorem age_150_retour_immediat:
  assumes "age d = Some 150" and "sexe d = Some s0" and "lower s0 \<in> {''homme'', ''femme''}"
    and "taille d = Some t" and "0 < t" and "t \<le> 300"
    and "poids d = Some p" and "0 < p" and "p \<le> 500"
  shows "valider_donnees d =
     Inr \<lparr>est_valide = False, erreurs = [AgeInvalide 150], avertissements = [],
          score_coherence = 80\<rparr>"
proof -
  have "valeurs_de_base 150 (lower s0) t p etat_initial = ([AgeInvalide 150], [], 80)"
    using assms by (auto simp: valeurs_de_base_def etat_initial_def Let_def)
  then show ?thesis
    using assms valider_base_invalide [of d 150 s0 t p] by simp
qed

theorem age_150_retour_immediat_temoin:
  "age \<lparr>age = Some 150, sexe = Some ''Homme'', taille = Some 178, poids = Some 75,
        tour_taille = Some 200, envergure = Some 100, longueur_jambe = Some 180\<rparr> = Some 150 \<and>
   lower ''Homme'' \<in> {''homme'', ''femme''} \<and>
   (0::rat) < 178 \<and> (178::rat) \<le> 300 \<and> (0::rat) < 75 \<and> (75::rat) \<le> 500 \<and>
   valider_donnees
       \<lparr>age = Some 150, sexe = Some ''Homme'', taille = Some 178, poids = Some 75,
        tour_taille = Some 200, envergure = Some 100, longueur_jambe = Some 180\<rparr> =
     Inr \<lparr>est_valide = False, erreurs = [AgeInvalide 150], avertissements = [],
          score_coherence = 80\<rparr>"
proof -
  have s: "lower ''Homme'' \<in> {''homme'', ''femme''}"
    by code_simp
  show ?thesis
    using s age_150_retour_immediat [of _ "''Homme''" 178 75, OF _ _ s]
    by simp
qed





text \<open>
  Claim C7. For each of the two sexes, the age intervals of the height table are pairwise
  non-overlapping and the ages they contain are exactly those of \<open>[0, 150)\<close>. So, for
  every age from 0 to 120, one and only one interval matches and the lookup returns its
  height range; and for every record that passes Step 1, Step 2 finds a range and only
  compares the height with it: the branch that skips the check is not taken.
\<close>

theorem table_des_tailles:
  assumes "s = ''homme'' \<or> s = ''femme''"
  shows "\<exists>plages. map_of taille_normale s = Some plages \<and>
     (\<forall>i j. i < j \<and> j < length plages \<longrightarrow>
        \<not> (\<exists>a. contient (fst (plages ! i)) a \<and> contient (fst (plages ! j)) a)) \<and>
     (\<forall>a. (\<exists>i<length plages. contient (fst (plages ! i)) a) \<longleftrightarrow> 0 \<le> a \<and> a < 150) \<and>
     (\<forall>a. 0 \<le> a \<and> a \<le> 120 \<longrightarrow>
        (\<exists>i<length plages. contient (fst (plages ! i)) a \<and>
           (\<forall>j<length plages. contient (fst (plages ! j)) a \<longrightarrow> j = i) \<and>
           obtenir_plage_taille a s = Some (snd (plages ! i)))) \<and>
     (\<forall>d a t p st. atteint_etape2 d a s t p \<longrightarrow>
        (\<exists>lo hi. obtenir_plage_taille a s = Some (lo, hi) \<and>
           coherence_taille a s t st =
             (if t < lo \<or> t > hi then signaler_erreur (TailleIncoherente s a t lo hi) 15 st
              else st)))"
proof -
  obtain plages where p: "map_of taille_normale s = Some plages"
    and m: "map fst plages = [(0, 2), (2, 5), (5, 10), (10, 15), (15, 20), (20, 150)]"
    using assms by (rule intervalles_des_ages)
  have o: "obtenir_plage_taille a s = chercher_plage plages a" for a
    by (simp add: obtenir_plage_taille_def p)
  have u: "\<exists>i<length plages. contient (fst (plages ! i)) a \<and>
           (\<forall>j<length plages. contient (fst (plages ! j)) a \<longrightarrow> j = i) \<and>
           obtenir_plage_taille a s = Some (snd (plages ! i))" if "0 \<le> a \<and> a \<le> 120" for a
    unfolding o using table_disjointe_et_couvrante(3) [OF m, of a] that by simp
  have r: "\<exists>lo hi. obtenir_plage_taille a s = Some (lo, hi) \<and>
           coherence_taille a s t st =
             (if t < lo \<or> t > hi then signaler_erreur (TailleIncoherente s a t lo hi) 15 st
              else st)" if "atteint_etape2 d a s t p" for d a t p st
  proof -
    have "0 \<le> a \<and> a \<le> 120"
      using that by (simp add: atteint_etape2_iff)
    then obtain v where "obtenir_plage_taille a s = Some v"
      using u by blast
    then show ?thesis
      by (cases v) (simp add: coherence_taille_def)
  qed
  show ?thesis
    using p table_disjointe_et_couvrante(1,2) [OF m] u r by blast
qed

theorem table_des_tailles_temoin:
  "(''femme'' = ''homme'' \<or> ''femme'' = ''femme'') \<and>
   (\<exists>plages. map_of taille_normale ''femme'' = Some plages \<and>
      (\<forall>a. (\<exists>i<length plages. contient (fst (plages ! i)) a) \<longleftrightarrow> 0 \<le> a \<and> a < 150) \<and>
      (\<exists>i<length plages. contient (fst (plages ! i)) 8 \<and>
         obtenir_plage_taille 8 ''femme'' = Some (snd (plages ! i))))"
proof -
  have h: "''femme'' = ''homme'' \<or> ''femme'' = ''femme''"
    by simp
  obtain plages where p: "map_of taille_normale ''femme'' = Some plages"
      "\<forall>a. (\<exists>i<length plages. contient (fst (plages ! i)) a) \<longleftrightarrow> 0 \<le> a \<and> a < 150"
      "\<forall>a. 0 \<le> a \<and> a \<le> 120 \<longrightarrow>
        (\<exists>i<length plages. contient (fst (plages ! i)) a \<and>
           (\<forall>j<length plages. contient (fst (plages ! j)) a \<longrightarrow> j = i) \<and>
           obtenir_plage_taille a ''femme'' = Some (snd (plages ! i)))"
    using table_des_tailles [OF h] by blast
  have "(0::int) \<le> 8 \<and> (8::int) \<le> 120"
    by simp
  with p(3) have "\<exists>i<length plages. contient (fst (plages ! i)) 8 \<and>
         obtenir_plage_taille 8 ''femme'' = Some (snd (plages ! i))"
    by blast
  with h p(1,2) show ?thesis
    by blast
qed




text \<open>
  Claim C9. The record with age 25, sex \<open>homme\<close>, height 178, weight 75, arm span 180
  and waist 85 is valid, with no error, no warning and score 100.
\<close>

theorem adulte_coherent:
  "valider_donnees
     \<lparr>age = Some 25, sexe = Some ''homme'', taille = Some 178, poids = Some 75,
      tour_taille = Some 85, envergure = Some 180, longueur_jambe = None\<rparr> =
   Inr \<lparr>est_valide = True, erreurs = [], avertissements = [], score_coherence = 100\<rparr>"
  by code_simp

text \<open>
  Claim C10, as stated: for a record that reaches Step 7, whenever waist and arm span are
  both present the waist-exceeds-span error is emitted exactly when the waist is above the
  span, and likewise for leg length and arm span. It fails on a record whose arm span is
  present and zero: waist 85 and leg length 90 exceed the span 0, and the result has no
  error, since lines 197 and 207 also require each value to be truthy.
\<close>

theorem envergure_nulle_sans_erreur:
  "tour_taille \<lparr>age = Some 25, sexe = Some ''homme'', taille = Some 178, poids = Some 75,
      tour_taille = Some 85, envergure = Some 0, longueur_jambe = Some 90\<rparr> = Some 85 \<and>
   envergure \<lparr>age = Some 25, sexe = Some ''homme'', taille = Some 178, poids = Some 75,
      tour_taille = Some 85, envergure = Some 0, longueur_jambe = Some 90\<rparr> = Some 0 \<and>
   longueur_jambe \<lparr>age = Some 25, sexe = Some ''homme'', taille = Some 178, poids = Some 75,
      tour_taille = Some 85, envergure = Some 0, longueur_jambe = Some 90\<rparr> = Some 90 \<and>
   (85::rat) > 0 \<and> (90::rat) > 0 \<and>
   atteint_etape2 \<lparr>age = Some 25, sexe = Some ''homme'', taille = Some 178, poids = Some 75,
      tour_taille = Some 85, envergure = Some 0, longueur_jambe = Some 90\<rparr> 25 ''homme'' 178 75 \<and>
   valider_donnees
     \<lparr>age = Some 25, sexe = Some ''homme'', taille = Some 178, poids = Some 75,
      tour_taille = Some 85, envergure = Some 0, longueur_jambe = Some 90\<rparr> =
   Inr \<lparr>est_valide = True, erreurs = [], avertissements = [], score_coherence = 100\<rparr>"
  by code_simp

text \<open>
  Claim C10, amended. For a record that reaches Step 7, the waist-exceeds-span error
  (with the values \<open>x\<close> and \<open>y\<close>) is in the result exactly when the waist \<open>x\<close> and the
  arm span \<open>y\<close> are both present and non-zero and \<open>x > y\<close>; the same holds for the
  leg-exceeds-span error with leg length and arm span. When both measurements are
  present, each of the two checks appends its error and deducts 10 if both values are
  non-zero and the first exceeds the span, and changes nothing otherwise.
\<close>

theorem controles_croises:
  assumes "atteint_etape2 d a s t p"
  shows "\<exists>r. valider_donnees d = Inr r \<and>
     (\<forall>x y. TourTailleSupEnvergure x y \<in> set (erreurs r) \<longleftrightarrow>
        tour_taille d = Some x \<and> envergure d = Some y \<and> x \<noteq> 0 \<and> y \<noteq> 0 \<and> x > y) \<and>
     (\<forall>x y. JambeSupEnvergure x y \<in> set (erreurs r) \<longleftrightarrow>
        longueur_jambe d = Some x \<and> envergure d = Some y \<and> x \<noteq> 0 \<and> y \<noteq> 0 \<and> x > y) \<and>
     (\<forall>x y es ws sc. tour_taille d = Some x \<and> envergure d = Some y \<longrightarrow>
        tour_taille_envergure d (es, ws, sc) =
          (if x \<noteq> 0 \<and> y \<noteq> 0 \<and> x > y
           then (es @ [TourTailleSupEnvergure x y], ws, sc - 10) else (es, ws, sc))) \<and>
     (\<forall>x y es ws sc. longueur_jambe d = Some x \<and> envergure d = Some y \<longrightarrow>
        jambe_envergure d (es, ws, sc) =
          (if x \<noteq> 0 \<and> y \<noteq> 0 \<and> x > y
           then (es @ [JambeSupEnvergure x y], ws, sc - 10) else (es, ws, sc)))"
proof -
  have t: "t \<noteq> 0"
    using assms(1) by (auto simp: atteint_etape2_iff)
  obtain st where c: "controles d a s t p etat_initial = Inr st"
    and v: "valider_donnees d = Inr (retour_final st)"
    using assms(1) by (rule valider_atteint)
  have er: "erreurs (retour_final st) = fst st"
    by (cases st) simp
  have e1: "\<And>x y. TourTailleSupEnvergure x y \<in> set (fst st) \<longleftrightarrow>
        tour_taille d = Some x \<and> envergure d = Some y \<and> x \<noteq> 0 \<and> y \<noteq> 0 \<and> x > y"
    by (auto simp: controles_erreurs [OF t c] etat_initial_def)
  have e2: "\<And>x y. JambeSupEnvergure x y \<in> set (fst st) \<longleftrightarrow>
        longueur_jambe d = Some x \<and> envergure d = Some y \<and> x \<noteq> 0 \<and> y \<noteq> 0 \<and> x > y"
    by (auto simp: controles_erreurs [OF t c] etat_initial_def)
  have p1: "\<And>x y es ws sc. tour_taille d = Some x \<and> envergure d = Some y \<longrightarrow>
        tour_taille_envergure d (es, ws, sc) =
          (if x \<noteq> 0 \<and> y \<noteq> 0 \<and> x > y
           then (es @ [TourTailleSupEnvergure x y], ws, sc - 10) else (es, ws, sc))"
    by (simp add: tour_taille_envergure_def renseigne_def)
  have p2: "\<And>x y es ws sc. longueur_jambe d = Some x \<and> envergure d = Some y \<longrightarrow>
        jambe_envergure d (es, ws, sc) =
          (if x \<noteq> 0 \<and> y \<noteq> 0 \<and> x > y
           then (es @ [JambeSupEnvergure x y], ws, sc - 10) else (es, ws, sc))"
    by (simp add: jambe_envergure_def renseigne_def)
  show ?thesis
    using v e1 e2 p1 p2 unfolding er [symmetric] by blast
qed

theorem controles_croises_temoin:
  "atteint_etape2
       \<lparr>age = Some 28, sexe = Some ''homme'', taille = Some 175, poids = Some 70,
        tour_taille = Some 200, envergure = Some 178, longueur_jambe = Some 180\<rparr>
       28 ''homme'' 175 70 \<and>
   (\<exists>r. valider_donnees
       \<lparr>age = Some 28, sexe = Some ''homme'', taille = Some 175, poids = Some 70,
        tour_taille = Some 200, envergure = Some 178, longueur_jambe = Some 180\<rparr> = Inr r \<and>
      TourTailleSupEnvergure 200 178 \<in> set (erreurs r) \<and>
      JambeSupEnvergure 180 178 \<in> set (erreurs r))"
proof -
  have h: "atteint_etape2
       \<lparr>age = Some 28, sexe = Some ''homme'', taille = Some 175, poids = Some 70,
        tour_taille = Some 200, envergure = Some 178, longueur_jambe = Some 180\<rparr>
       28 ''homme'' 175 70"
    by code_simp
  show ?thesis
    using h controles_croises [OF h]
    by auto
qed

end
